theory Spec2Isabelle
  imports Main
begin

section \<open>The counter hook of the dual-ledger client (use-counter-program.ts)\<close>

text \<open>
  The hook \<^verbatim>\<open>useCounterProgram\<close> keeps React state (the counter account, the busy flag,
  the last error, the delegation status, the cached rollup value) and offers asynchronous
  operations that talk to two ledgers: the base layer (\<^verbatim>\<open>connection\<close>) and the ephemeral
  rollup (\<^verbatim>\<open>erConnection\<close>).

  The embedding: the React state is a record; every operation is a function from the
  state to a result and the new state; a JavaScript exception is the \<open>Inl\<close> branch of the
  result; every answer of the outside world (an RPC reply, a wallet signature) is taken
  from a record of outcomes, over which the theorems quantify; every state setter and
  every external call is appended to a trace, so that the order of the steps of an
  operation can be stated. An operation runs from its call to its return without another
  operation interleaved.

  The operations are \<^verbatim>\<open>useCallback\<close> closures: they read the wallet, the session and
  the counter address of the render that created them, and write through the state
  setters. So every operation takes the render \<open>c\<close> whose closure is called, besides the
  state it runs on; \<open>op ev c c\<close> is the call made right after the render of \<open>c\<close>.
\<close>

subsection \<open>Data\<close>

type_synonym PublicKey = string

text \<open>\<^verbatim>\<open>type DelegationStatus = "undelegated" | "delegated" | "checking"\<close>\<close>

datatype DelegationStatus = Undelegated | Delegated | Checking

text \<open>\<^verbatim>\<open>interface CounterAccount { count: bigint; authority: PublicKey }\<close>\<close>

record CounterAccount =
  count :: nat
  authority :: PublicKey

text \<open>
  A thrown JavaScript value: an \<^verbatim>\<open>Error\<close> with its message, or any other value
  (for which \<^verbatim>\<open>err instanceof Error\<close> is false).
\<close>

datatype js_exn = JsError string | NonError

text \<open>
  What the hook reads of \<^verbatim>\<open>useWallet()\<close>: the public key (null when disconnected) and
  whether the adapter offers \<^verbatim>\<open>signTransaction\<close> and \<^verbatim>\<open>signAllTransactions\<close>.
\<close>

record Wallet =
  publicKey :: "PublicKey option"
  signTransaction :: bool
  signAllTransactions :: bool

text \<open>
  What the hook reads of \<^verbatim>\<open>useSessionKeyManager(...)\<close>: the session key's public key,
  whether it offers \<^verbatim>\<open>signTransaction\<close>, and the session token (null when there is no
  active session). The object itself is never null.
\<close>

record SessionWallet =
  session_publicKey :: "PublicKey option"
  session_signTransaction :: bool
  sessionToken :: "string option"

text \<open>The two connections: \<^verbatim>\<open>connection\<close> (base layer) and \<^verbatim>\<open>erConnection\<close> (rollup).\<close>

datatype ledger = BaseLedger | RollupLedger

text \<open>An \<^verbatim>\<open>AnchorProvider\<close>: a connection and the wallet that signs for it.\<close>

record AnchorProvider =
  provider_connection :: ledger
  provider_wallet :: PublicKey

text \<open>The instructions of the program (\<^verbatim>\<open>program.methods.*\<close>).\<close>

datatype instruction =
    InitializeIx | IncrementIx | DecrementIx | SetIx int
  | DelegateIx | CommitIx | UndelegateIx

text \<open>
  The argument of \<^verbatim>\<open>.accounts({...})\<close>: \<^verbatim>\<open>{authority}\<close> for initialize,
  \<^verbatim>\<open>{counter, signer, sessionToken}\<close> for increment, decrement and set,
  \<^verbatim>\<open>{payer}\<close> for delegate, commit and undelegate.
\<close>

datatype accounts =
    AuthorityAccounts PublicKey
  | CounterAccounts PublicKey "PublicKey option" "string option"
  | PayerAccounts PublicKey

datatype signer = PrimaryWallet | SessionKey

record Transaction =
  tx_method :: instruction
  tx_accounts :: accounts
  feePayer :: "PublicKey option"
  recentBlockhash :: "string option"
  signedBy :: "signer list"

text \<open>The trace: state setters and calls to the outside, in the order they happen.\<close>

datatype event =
    SetCounterAccount "CounterAccount option"
  | SetIsLoading bool
  | SetIsDelegating bool
  | SetError "string option"
  | SetDelegationStatus DelegationStatus
  | SetErCounterValue "nat option"
  | Rpc AnchorProvider instruction accounts bool
  | FetchCounter ledger PublicKey
  | GetAccountInfo ledger PublicKey
  | BuildTransaction instruction accounts
  | GetLatestBlockhash ledger
  | SignTransaction signer Transaction
  | SendRawTransaction ledger Transaction bool
  | ConfirmTransaction ledger string
  | Timeout nat
  | GetCommitmentSignature string ledger

text \<open>
  What a render of the hook sees: the values of \<^verbatim>\<open>useWallet\<close> and
  \<^verbatim>\<open>useSessionKeyManager\<close>, the \<^verbatim>\<open>useState\<close> cells, and the trace so far.
\<close>

record hook =
  wallet :: Wallet
  sessionWallet :: SessionWallet
  counterPubkey :: "PublicKey option"
  counterAccount :: "CounterAccount option"
  isLoading :: bool
  isDelegating :: bool
  error :: "string option"
  delegationStatus :: DelegationStatus
  erCounterValue :: "nat option"
  trace :: "event list"

text \<open>
  The answers of the outside world to the calls of one operation (\<open>Inl\<close>: the call
  throws). \<open>accountInfo_outcome\<close> is the owner of the base-layer account, \<open>None\<close> when
  \<^verbatim>\<open>getAccountInfo\<close> returns null. \<open>send_outcome\<close> covers \<^verbatim>\<open>tx.serialize()\<close> and
  \<^verbatim>\<open>sendRawTransaction\<close>.
\<close>

record env =
  rpc_outcome :: "js_exn + string"
  fetch_outcome :: "ledger \<Rightarrow> js_exn + CounterAccount"
  accountInfo_outcome :: "js_exn + PublicKey option"
  transaction_outcome :: "js_exn + unit"
  blockhash_outcome :: "js_exn + string"
  sign_outcome :: "signer \<Rightarrow> js_exn + unit"
  send_outcome :: "js_exn + string"
  confirm_outcome :: "js_exn + unit"
  commitmentSignature_outcome :: "js_exn + string"

subsection \<open>Programs with state and exceptions\<close>

type_synonym 'a prog = "hook \<Rightarrow> (js_exn + 'a) \<times> hook"

definition return :: "'a \<Rightarrow> 'a prog" where
  "return x st = (Inr x, st)"

definition throw :: "js_exn \<Rightarrow> 'a prog" where
  "throw e st = (Inl e, st)"

definition bind :: "'a prog \<Rightarrow> ('a \<Rightarrow> 'b prog) \<Rightarrow> 'b prog" where
  "bind m f st = (case m st of (Inl e, st') \<Rightarrow> (Inl e, st') | (Inr x, st') \<Rightarrow> f x st')"

definition seq :: "unit prog \<Rightarrow> 'b prog \<Rightarrow> 'b prog" where
  "seq m n = bind m (\<lambda>_. n)"

text \<open>\<^verbatim>\<open>try { m } catch (err) { h(err) }\<close>\<close>

definition try_catch :: "'a prog \<Rightarrow> (js_exn \<Rightarrow> 'a prog) \<Rightarrow> 'a prog" where
  "try_catch m h st = (case m st of (Inl e, st') \<Rightarrow> h e st' | (Inr x, st') \<Rightarrow> (Inr x, st'))"

text \<open>\<^verbatim>\<open>try { m } finally { f }\<close>, for a block \<open>f\<close> that only calls state setters.\<close>

definition try_finally :: "'a prog \<Rightarrow> unit prog \<Rightarrow> 'a prog" where
  "try_finally m f st = (case m st of (r, st') \<Rightarrow> (r, snd (f st')))"

text \<open>An awaited call to the outside: it is recorded, and returns or throws.\<close>

definition call :: "event \<Rightarrow> js_exn + 'a \<Rightarrow> 'a prog" where
  "call e outcome st = (outcome, st\<lparr>trace := trace st @ [e]\<rparr>)"

text \<open>An expression that may throw: it gives its value or throws, and touches no state.\<close>

definition evaluate :: "js_exn + 'a \<Rightarrow> 'a prog" where
  "evaluate r st = (r, st)"

definition setCounterAccount :: "CounterAccount option \<Rightarrow> unit prog" where
  "setCounterAccount v st = (Inr (), st\<lparr>counterAccount := v, trace := trace st @ [SetCounterAccount v]\<rparr>)"

definition setIsLoading :: "bool \<Rightarrow> unit prog" where
  "setIsLoading v st = (Inr (), st\<lparr>isLoading := v, trace := trace st @ [SetIsLoading v]\<rparr>)"

definition setIsDelegating :: "bool \<Rightarrow> unit prog" where
  "setIsDelegating v st = (Inr (), st\<lparr>isDelegating := v, trace := trace st @ [SetIsDelegating v]\<rparr>)"

definition setError :: "string option \<Rightarrow> unit prog" where
  "setError v st = (Inr (), st\<lparr>error := v, trace := trace st @ [SetError v]\<rparr>)"

definition setDelegationStatus :: "DelegationStatus \<Rightarrow> unit prog" where
  "setDelegationStatus v st =
     (Inr (), st\<lparr>delegationStatus := v, trace := trace st @ [SetDelegationStatus v]\<rparr>)"

definition setErCounterValue :: "nat option \<Rightarrow> unit prog" where
  "setErCounterValue v st =
     (Inr (), st\<lparr>erCounterValue := v, trace := trace st @ [SetErCounterValue v]\<rparr>)"

subsection \<open>Memoised values\<close>

text \<open>
  \<^verbatim>\<open>program\<close>: null unless the wallet has a public key and both signing functions;
  otherwise a program client over a provider on the base connection.
\<close>

definition program :: "hook \<Rightarrow> AnchorProvider option" where
  "program st =
     (case publicKey (wallet st) of
        None \<Rightarrow> None
      | Some pk \<Rightarrow>
          if \<not> signTransaction (wallet st) \<or> \<not> signAllTransactions (wallet st) then None
          else Some \<lparr>provider_connection = BaseLedger, provider_wallet = pk\<rparr>)"

definition erProvider :: "hook \<Rightarrow> AnchorProvider option" where
  "erProvider st =
     (case publicKey (wallet st) of
        None \<Rightarrow> None
      | Some pk \<Rightarrow>
          if \<not> signTransaction (wallet st) \<or> \<not> signAllTransactions (wallet st) then None
          else Some \<lparr>provider_connection = RollupLedger, provider_wallet = pk\<rparr>)"

definition erProgram :: "hook \<Rightarrow> AnchorProvider option" where
  "erProgram st = (case erProvider st of None \<Rightarrow> None | Some p \<Rightarrow> Some p)"

text \<open>\<^verbatim>\<open>new PublicKey("DELeGGvXpWV2fqJUhqcF5ZSYMS4JTLjteaAMARRSaeSh")\<close>\<close>

definition DELEGATION_PROGRAM_ID :: PublicKey where
  "DELEGATION_PROGRAM_ID = ''DELeGGvXpWV2fqJUhqcF5ZSYMS4JTLjteaAMARRSaeSh''"

subsection \<open>Reading the ledgers\<close>

text \<open>\<^verbatim>\<open>String.prototype.includes\<close>\<close>

fun includes_str :: "string \<Rightarrow> string \<Rightarrow> bool" where
  "includes_str [] sub = (sub = [])"
| "includes_str (c # cs) sub = (take (length sub) (c # cs) = sub \<or> includes_str cs sub)"

definition fetchCounterAccount :: "env \<Rightarrow> hook \<Rightarrow> unit prog" where
  "fetchCounterAccount ev c =
     (case (program c, counterPubkey c) of
        (Some p, Some pk) \<Rightarrow>
          try_catch
            (bind (call (FetchCounter BaseLedger pk) (fetch_outcome ev BaseLedger))
               (\<lambda>account. seq (setCounterAccount (Some account)) (setError None)))
            (\<lambda>err. seq (setCounterAccount None)
               (case err of
                  JsError msg \<Rightarrow>
                    if \<not> includes_str msg ''Account does not exist''
                       \<and> \<not> includes_str msg ''could not find account''
                    then setError (Some msg) else return ()
                | NonError \<Rightarrow> return ()))
      | _ \<Rightarrow> setCounterAccount None)"

definition checkDelegationStatus :: "env \<Rightarrow> hook \<Rightarrow> unit prog" where
  "checkDelegationStatus ev c =
     (case counterPubkey c of
        None \<Rightarrow> setDelegationStatus Checking
      | Some pk \<Rightarrow>
          try_catch
            (seq (setDelegationStatus Checking)
               (bind (call (GetAccountInfo BaseLedger pk) (accountInfo_outcome ev))
                  (\<lambda>accountInfo.
                     case accountInfo of
                       None \<Rightarrow> seq (setDelegationStatus Undelegated) (setErCounterValue None)
                     | Some owner \<Rightarrow>
                         if owner = DELEGATION_PROGRAM_ID then
                           seq (setDelegationStatus Delegated)
                             (case erProgram c of
                                Some p \<Rightarrow>
                                  try_catch
                                    (bind (call (FetchCounter RollupLedger pk)
                                             (fetch_outcome ev RollupLedger))
                                       (\<lambda>account. setErCounterValue (Some (count account))))
                                    (\<lambda>_. return ())
                              | None \<Rightarrow> return ())
                         else seq (setDelegationStatus Undelegated) (setErCounterValue None))))
            (\<lambda>err. seq (setDelegationStatus Undelegated) (setErCounterValue None)))"

subsection \<open>Base-layer operations\<close>

text \<open>\<^verbatim>\<open>err instanceof Error ? err.message : fallback\<close>\<close>

definition message :: "js_exn \<Rightarrow> string \<Rightarrow> string" where
  "message err fallback = (case err of JsError msg \<Rightarrow> msg | NonError \<Rightarrow> fallback)"

text \<open>
  \<^verbatim>\<open>program.methods.m().accounts(a).rpc(opts)\<close> builds the transaction, has the
  provider's wallet sign it, sends it on the provider's connection and waits for the
  provider's commitment (\<^verbatim>\<open>"confirmed"\<close>). The flag is \<^verbatim>\<open>skipPreflight\<close>.
\<close>

definition initialize :: "env \<Rightarrow> hook \<Rightarrow> string prog" where
  "initialize ev c =
     (case (program c, publicKey (wallet c)) of
        (Some p, Some wpk) \<Rightarrow>
          seq (setIsLoading True) (seq (setError None)
            (try_finally
               (try_catch
                  (bind (call (Rpc p InitializeIx (AuthorityAccounts wpk) False) (rpc_outcome ev))
                     (\<lambda>tx. seq (fetchCounterAccount ev c) (return tx)))
                  (\<lambda>err. seq (setError (Some (message err ''Failed to initialize counter'')))
                     (throw err)))
               (setIsLoading False)))
      | _ \<Rightarrow> throw (JsError ''Wallet not connected''))"

definition increment :: "env \<Rightarrow> hook \<Rightarrow> string prog" where
  "increment ev c =
     (case (program c, publicKey (wallet c), counterPubkey c) of
        (Some p, Some wpk, Some pk) \<Rightarrow>
          seq (setIsLoading True) (seq (setError None)
            (try_finally
               (try_catch
                  (bind (call (Rpc p IncrementIx (CounterAccounts pk (Some wpk) None) False)
                           (rpc_outcome ev))
                     (\<lambda>tx. return tx))
                  (\<lambda>err. seq (setError (Some (message err ''Failed to increment counter'')))
                     (throw err)))
               (setIsLoading False)))
      | _ \<Rightarrow> throw (JsError ''Counter not initialized''))"

definition decrement :: "env \<Rightarrow> hook \<Rightarrow> string prog" where
  "decrement ev c =
     (case (program c, publicKey (wallet c), counterPubkey c) of
        (Some p, Some wpk, Some pk) \<Rightarrow>
          seq (setIsLoading True) (seq (setError None)
            (try_finally
               (try_catch
                  (bind (call (Rpc p DecrementIx (CounterAccounts pk (Some wpk) None) False)
                           (rpc_outcome ev))
                     (\<lambda>tx. return tx))
                  (\<lambda>err. seq (setError (Some (message err ''Failed to decrement counter'')))
                     (throw err)))
               (setIsLoading False)))
      | _ \<Rightarrow> throw (JsError ''Counter not initialized''))"

text \<open>
  \<^verbatim>\<open>new BN(value)\<close> for a JavaScript number with an integer value (the component passes
  the result of \<^verbatim>\<open>parseInt\<close>). The constructor of bn.js takes the sign off and asserts
  \<^verbatim>\<open>number < 0x20000000000000\<close>: a number of magnitude \<open>2 ^ 53\<close> or more throws
  \<^verbatim>\<open>Error("Assertion failed")\<close>.
\<close>

definition newBN :: "int \<Rightarrow> js_exn + int" where
  "newBN value = (if \<bar>value\<bar> < 2 ^ 53 then Inr value else Inl (JsError ''Assertion failed''))"

definition set' :: "env \<Rightarrow> int \<Rightarrow> hook \<Rightarrow> string prog" where
  "set' ev v c =
     (case (program c, publicKey (wallet c), counterPubkey c) of
        (Some p, Some wpk, Some pk) \<Rightarrow>
          seq (setIsLoading True) (seq (setError None)
            (try_finally
               (try_catch
                  (bind (evaluate (newBN v)) (\<lambda>bn.
                   bind (call (Rpc p (SetIx bn) (CounterAccounts pk (Some wpk) None) False)
                           (rpc_outcome ev))
                     (\<lambda>tx. return tx)))
                  (\<lambda>err. seq (setError (Some (message err ''Failed to set counter'')))
                     (throw err)))
               (setIsLoading False)))
      | _ \<Rightarrow> throw (JsError ''Counter not initialized''))"

subsection \<open>Rollup operations\<close>

text \<open>
  \<^verbatim>\<open>methodBuilder.accounts(accounts).transaction()\<close>: an unsigned transaction with
  neither fee payer nor blockhash.
\<close>

definition transaction :: "env \<Rightarrow> instruction \<Rightarrow> accounts \<Rightarrow> Transaction prog" where
  "transaction ev m a =
     bind (call (BuildTransaction m a) (transaction_outcome ev))
       (\<lambda>_. return \<lparr>tx_method = m, tx_accounts = a, feePayer = None,
                       recentBlockhash = None, signedBy = []\<rparr>)"

text \<open>\<^verbatim>\<open>w.signTransaction(tx)\<close> for the primary wallet or the session key.\<close>

definition signWith :: "env \<Rightarrow> signer \<Rightarrow> Transaction \<Rightarrow> Transaction prog" where
  "signWith ev s tx =
     bind (call (SignTransaction s tx) (sign_outcome ev s))
       (\<lambda>_. return (tx\<lparr>signedBy := signedBy tx @ [s]\<rparr>))"

definition performErAction :: "env \<Rightarrow> instruction \<Rightarrow> string \<Rightarrow> hook \<Rightarrow> string prog" where
  "performErAction ev methodBuilder actionName c =
     (case (program c, erProvider c, publicKey (wallet c), counterPubkey c) of
        (Some p, Some erp, Some wpk, Some pk) \<Rightarrow>
          seq (setIsLoading True) (seq (setError None)
            (try_finally
               (try_catch
                  (let hasSession = (sessionToken (sessionWallet c) \<noteq> None);
                       signer = (if hasSession then session_publicKey (sessionWallet c)
                                 else Some wpk);
                       accounts = CounterAccounts pk signer
                                    (if hasSession then sessionToken (sessionWallet c) else None)
                   in
                   bind (transaction ev methodBuilder accounts) (\<lambda>tx0.
                   let tx1 = tx0\<lparr>feePayer := Some wpk\<rparr> in
                   bind (call (GetLatestBlockhash RollupLedger) (blockhash_outcome ev)) (\<lambda>blockhash.
                   let tx2 = tx1\<lparr>recentBlockhash := Some blockhash\<rparr> in
                   bind (if hasSession \<and> session_signTransaction (sessionWallet c)
                         then signWith ev SessionKey
                                (tx2\<lparr>feePayer := session_publicKey (sessionWallet c)\<rparr>)
                         else signWith ev PrimaryWallet tx2) (\<lambda>tx.
                   bind (call (SendRawTransaction RollupLedger tx True) (send_outcome ev)) (\<lambda>txHash.
                   bind (call (ConfirmTransaction RollupLedger txHash) (confirm_outcome ev)) (\<lambda>_.
                   seq (case erProgram c of
                          Some ep \<Rightarrow>
                            try_catch
                              (bind (call (FetchCounter RollupLedger pk)
                                       (fetch_outcome ev RollupLedger))
                                 (\<lambda>account. setErCounterValue (Some (count account))))
                              (\<lambda>_. return ())
                        | None \<Rightarrow> return ())
                     (return txHash)))))))
                  (\<lambda>err. seq (setError (Some (message err (''Failed to '' @ actionName @ '' on ER''))))
                     (throw err)))
               (setIsLoading False)))
      | _ \<Rightarrow> throw (JsError ''Counter not initialized or not delegated''))"

definition incrementOnER :: "env \<Rightarrow> hook \<Rightarrow> string prog" where
  "incrementOnER ev c =
     (case program c of
        None \<Rightarrow> throw (JsError ''Program not loaded'')
      | Some p \<Rightarrow> performErAction ev IncrementIx ''increment'' c)"

definition decrementOnER :: "env \<Rightarrow> hook \<Rightarrow> string prog" where
  "decrementOnER ev c =
     (case program c of
        None \<Rightarrow> throw (JsError ''Program not loaded'')
      | Some p \<Rightarrow> performErAction ev DecrementIx ''decrement'' c)"

definition setOnER :: "env \<Rightarrow> int \<Rightarrow> hook \<Rightarrow> string prog" where
  "setOnER ev v c =
     (case program c of
        None \<Rightarrow> throw (JsError ''Program not loaded'')
      | Some p \<Rightarrow>
          bind (evaluate (newBN v)) (\<lambda>bn. performErAction ev (SetIx bn) ''set'' c))"

subsection \<open>Delegation, commit and undelegation\<close>

text \<open>\<^verbatim>\<open>await new Promise(resolve => setTimeout(resolve, ms))\<close>\<close>

definition sleep :: "nat \<Rightarrow> unit prog" where
  "sleep ms st = (Inr (), st\<lparr>trace := trace st @ [Timeout ms]\<rparr>)"

definition delegate :: "env \<Rightarrow> hook \<Rightarrow> string prog" where
  "delegate ev c =
     (case (program c, publicKey (wallet c)) of
        (Some p, Some wpk) \<Rightarrow>
          seq (setIsLoading True) (seq (setIsDelegating True) (seq (setError None)
            (try_finally
               (try_catch
                  (bind (call (Rpc p DelegateIx (PayerAccounts wpk) True) (rpc_outcome ev))
                     (\<lambda>tx. seq (sleep 2000) (seq (checkDelegationStatus ev c) (return tx))))
                  (\<lambda>err. seq (setError (Some (message err ''Failed to delegate counter'')))
                     (throw err)))
               (seq (setIsLoading False) (setIsDelegating False)))))
      | _ \<Rightarrow> throw (JsError ''Wallet not connected''))"

definition commit :: "env \<Rightarrow> hook \<Rightarrow> string prog" where
  "commit ev c =
     (case (program c, erProvider c, publicKey (wallet c), counterPubkey c) of
        (Some p, Some erp, Some wpk, Some pk) \<Rightarrow>
          seq (setIsLoading True) (seq (setError None)
            (try_finally
               (try_catch
                  (bind (transaction ev CommitIx (PayerAccounts wpk)) (\<lambda>tx0.
                   let tx1 = tx0\<lparr>feePayer := Some wpk\<rparr> in
                   bind (call (GetLatestBlockhash RollupLedger) (blockhash_outcome ev)) (\<lambda>blockhash.
                   let tx2 = tx1\<lparr>recentBlockhash := Some blockhash\<rparr> in
                   bind (signWith ev PrimaryWallet tx2) (\<lambda>tx.
                   bind (call (SendRawTransaction RollupLedger tx True) (send_outcome ev)) (\<lambda>txHash.
                   bind (call (ConfirmTransaction RollupLedger txHash) (confirm_outcome ev)) (\<lambda>_.
                   seq (try_catch
                          (bind (call (GetCommitmentSignature txHash RollupLedger)
                                   (commitmentSignature_outcome ev))
                             (\<lambda>_. return ()))
                          (\<lambda>_. return ()))
                     (seq (fetchCounterAccount ev c) (return txHash))))))))
                  (\<lambda>err. seq (setError (Some (message err ''Failed to commit counter'')))
                     (throw err)))
               (setIsLoading False)))
      | _ \<Rightarrow> throw (JsError ''Counter not initialized or not delegated''))"

definition undelegate :: "env \<Rightarrow> hook \<Rightarrow> string prog" where
  "undelegate ev c =
     (case (program c, erProvider c, publicKey (wallet c), counterPubkey c) of
        (Some p, Some erp, Some wpk, Some pk) \<Rightarrow>
          seq (setIsLoading True) (seq (setError None)
            (try_finally
               (try_catch
                  (bind (transaction ev UndelegateIx (PayerAccounts wpk)) (\<lambda>tx0.
                   let tx1 = tx0\<lparr>feePayer := Some wpk\<rparr> in
                   bind (call (GetLatestBlockhash RollupLedger) (blockhash_outcome ev)) (\<lambda>blockhash.
                   let tx2 = tx1\<lparr>recentBlockhash := Some blockhash\<rparr> in
                   bind (signWith ev PrimaryWallet tx2) (\<lambda>tx.
                   bind (call (SendRawTransaction RollupLedger tx True) (send_outcome ev)) (\<lambda>txHash.
                   bind (call (ConfirmTransaction RollupLedger txHash) (confirm_outcome ev)) (\<lambda>_.
                   seq (sleep 2000)
                     (seq (setDelegationStatus Undelegated)
                        (seq (setErCounterValue None)
                           (seq (fetchCounterAccount ev c) (return txHash))))))))))
                  (\<lambda>err. seq (setError (Some (message err ''Failed to undelegate counter'')))
                     (throw err)))
               (setIsLoading False)))
      | _ \<Rightarrow> throw (JsError ''Counter not initialized or not delegated''))"

subsection \<open>The rollup subscription effect\<close>

text \<open>
  What React and the rollup connection keep for the effect
  \<^verbatim>\<open>useEffect(() => {...}, [erProgram, counterPubkey, erConnection, delegationStatus])\<close>:
  the listeners registered on \<^verbatim>\<open>erConnection\<close> (identifier and address), the next
  identifier the connection hands out, the dependencies of the last run of the effect
  (\<open>None\<close> before the first), and the \<^verbatim>\<open>subscriptionId\<close> its cleanup closure holds
  (\<open>None\<close> when the effect returned no cleanup). \<^verbatim>\<open>erConnection\<close> is memoised with no
  dependencies and never changes.
\<close>

record react =
  listeners :: "(nat \<times> PublicKey) list"
  nextSubscriptionId :: nat
  effectDeps :: "(AnchorProvider option \<times> PublicKey option \<times> DelegationStatus) option"
  effectCleanup :: "nat option"

definition onAccountChange :: "PublicKey \<Rightarrow> react \<Rightarrow> nat \<times> react" where
  "onAccountChange pk r =
     (nextSubscriptionId r,
      r\<lparr>listeners := listeners r @ [(nextSubscriptionId r, pk)],
        nextSubscriptionId := nextSubscriptionId r + 1\<rparr>)"

definition removeAccountChangeListener :: "nat \<Rightarrow> react \<Rightarrow> react" where
  "removeAccountChangeListener i r = r\<lparr>listeners := filter (\<lambda>l. fst l \<noteq> i) (listeners r)\<rparr>"

text \<open>The body of the effect.\<close>

definition erSubscriptionEffect :: "hook \<Rightarrow> react \<Rightarrow> react" where
  "erSubscriptionEffect st r =
     (case (erProgram st, counterPubkey st) of
        (Some ep, Some pk) \<Rightarrow>
          if delegationStatus st \<noteq> Delegated then r\<lparr>effectCleanup := None\<rparr>
          else (case onAccountChange pk r of
                  (subscriptionId, r') \<Rightarrow> r'\<lparr>effectCleanup := Some subscriptionId\<rparr>)
      | _ \<Rightarrow> r\<lparr>effectCleanup := None\<rparr>)"

text \<open>The cleanup the last run returned, if any.\<close>

definition runCleanup :: "react \<Rightarrow> react" where
  "runCleanup r =
     (case effectCleanup r of
        None \<Rightarrow> r
      | Some subscriptionId \<Rightarrow> (removeAccountChangeListener subscriptionId r)\<lparr>effectCleanup := None\<rparr>)"

text \<open>
  React after a render of the hook in state \<open>st\<close>: when a dependency changed since the
  last run (or on mount), the old cleanup runs and then the effect. Dependencies are
  compared with \<^verbatim>\<open>Object.is\<close>; \<open>fresh\<close> says that a dependency is a new object although
  its value is the same (a re-created program client or public key).
\<close>

definition commitRender :: "react \<Rightarrow> bool \<times> hook \<Rightarrow> react" where
  "commitRender r x =
     (case x of (fresh, st) \<Rightarrow>
        let deps = (erProgram st, counterPubkey st, delegationStatus st) in
        if effectDeps r = Some deps \<and> \<not> fresh then r
        else erSubscriptionEffect st ((runCleanup r)\<lparr>effectDeps := Some deps\<rparr>))"

definition mounted :: react where
  "mounted = \<lparr>listeners = [], nextSubscriptionId = 0, effectDeps = None, effectCleanup = None\<rparr>"

text \<open>The component over a sequence of renders, from mount.\<close>

definition lifecycle :: "(bool \<times> hook) list \<Rightarrow> react" where
  "lifecycle renders = foldl commitRender mounted renders"

text \<open>Unmounting runs the cleanup.\<close>

definition unmount :: "react \<Rightarrow> react" where
  "unmount r = runCleanup r"

text \<open>
  The effect's condition for subscribing, and what holds between two renders: the effect
  has run for the current dependencies, and the connection carries the one listener of
  its cleanup closure, or none.
\<close>

definition subscribed :: "hook \<Rightarrow> bool" where
  "subscribed st =
     (erProgram st \<noteq> None \<and> counterPubkey st \<noteq> None \<and> delegationStatus st = Delegated)"

definition effect_inv :: "hook \<Rightarrow> react \<Rightarrow> bool" where
  "effect_inv st r =
     (effectDeps r = Some (erProgram st, counterPubkey st, delegationStatus st) \<and>
      (case effectCleanup r of
         None \<Rightarrow> listeners r = [] \<and> \<not> subscribed st
       | Some i \<Rightarrow> subscribed st \<and> listeners r = [(i, the (counterPubkey st))]))"

definition clean :: "react \<Rightarrow> bool" where
  "clean r =
     (case effectCleanup r of
        None \<Rightarrow> listeners r = []
      | Some i \<Rightarrow> \<exists>pk. listeners r = [(i, pk)])"

subsection \<open>The operations the hook returns\<close>

datatype operation =
    Initialize | Increment | Decrement | SetTo int
  | IncrementOnER | DecrementOnER | SetOnER int
  | DelegateOp | CommitOp | UndelegateOp

fun run :: "env \<Rightarrow> operation \<Rightarrow> hook \<Rightarrow> string prog" where
  "run ev Initialize = initialize ev"
| "run ev Increment = increment ev"
| "run ev Decrement = decrement ev"
| "run ev (SetTo v) = set' ev v"
| "run ev IncrementOnER = incrementOnER ev"
| "run ev DecrementOnER = decrementOnER ev"
| "run ev (SetOnER v) = setOnER ev v"
| "run ev DelegateOp = delegate ev"
| "run ev CommitOp = commit ev"
| "run ev UndelegateOp = undelegate ev"

text \<open>
  What lets an operation enter its \<^verbatim>\<open>try\<close> block: the guard at its head, by the render
  whose closure is called, and for \<^verbatim>\<open>setOnER\<close> also the \<^verbatim>\<open>new BN(value)\<close> that its
  wrapper evaluates before the rollup routine is entered.
\<close>

fun ready :: "operation \<Rightarrow> hook \<Rightarrow> bool" where
  "ready Initialize c = (program c \<noteq> None \<and> publicKey (wallet c) \<noteq> None)"
| "ready DelegateOp c = (program c \<noteq> None \<and> publicKey (wallet c) \<noteq> None)"
| "ready Increment c =
     (program c \<noteq> None \<and> publicKey (wallet c) \<noteq> None \<and> counterPubkey c \<noteq> None)"
| "ready Decrement c =
     (program c \<noteq> None \<and> publicKey (wallet c) \<noteq> None \<and> counterPubkey c \<noteq> None)"
| "ready (SetTo v) c =
     (program c \<noteq> None \<and> publicKey (wallet c) \<noteq> None \<and> counterPubkey c \<noteq> None)"
| "ready (SetOnER v) c =
     (\<bar>v\<bar> < 2 ^ 53 \<and> program c \<noteq> None \<and> erProvider c \<noteq> None
      \<and> publicKey (wallet c) \<noteq> None \<and> counterPubkey c \<noteq> None)"
| "ready _ c =
     (program c \<noteq> None \<and> erProvider c \<noteq> None \<and> publicKey (wallet c) \<noteq> None
      \<and> counterPubkey c \<noteq> None)"

text \<open>The message recorded when the thrown value is not an \<^verbatim>\<open>Error\<close>.\<close>

fun fallback :: "operation \<Rightarrow> string" where
  "fallback Initialize = ''Failed to initialize counter''"
| "fallback Increment = ''Failed to increment counter''"
| "fallback Decrement = ''Failed to decrement counter''"
| "fallback (SetTo v) = ''Failed to set counter''"
| "fallback IncrementOnER = ''Failed to increment on ER''"
| "fallback DecrementOnER = ''Failed to decrement on ER''"
| "fallback (SetOnER v) = ''Failed to set on ER''"
| "fallback DelegateOp = ''Failed to delegate counter''"
| "fallback CommitOp = ''Failed to commit counter''"
| "fallback UndelegateOp = ''Failed to undelegate counter''"

text \<open>The setters before the \<^verbatim>\<open>try\<close> and those of the \<^verbatim>\<open>finally\<close> block.\<close>

fun entry :: "operation \<Rightarrow> event list" where
  "entry DelegateOp = [SetIsLoading True, SetIsDelegating True, SetError None]"
| "entry _ = [SetIsLoading True, SetError None]"

fun exit :: "operation \<Rightarrow> event list" where
  "exit DelegateOp = [SetIsLoading False, SetIsDelegating False]"
| "exit _ = [SetIsLoading False]"

text \<open>The operations that end with \<^verbatim>\<open>await fetchCounterAccount()\<close>.\<close>

fun refreshes :: "operation \<Rightarrow> bool" where
  "refreshes Initialize = True"
| "refreshes CommitOp = True"
| "refreshes UndelegateOp = True"
| "refreshes _ = False"

fun onRollup :: "operation \<Rightarrow> bool" where
  "onRollup IncrementOnER = True"
| "onRollup DecrementOnER = True"
| "onRollup (SetOnER v) = True"
| "onRollup _ = False"

text \<open>
  The result an operation owes its caller, read off the answers of the outside: the first
  failure among the steps it awaits outside any inner \<^verbatim>\<open>try/catch\<close>, in their order, and
  the signature or hash when none fails.
\<close>

definition andThen :: "js_exn + 'a \<Rightarrow> js_exn + 'b \<Rightarrow> js_exn + 'b" where
  "andThen a b = (case a of Inl e \<Rightarrow> Inl e | Inr x \<Rightarrow> b)"

definition chosenSigner :: "hook \<Rightarrow> signer" where
  "chosenSigner c =
     (if sessionToken (sessionWallet c) \<noteq> None \<and> session_signTransaction (sessionWallet c)
      then SessionKey else PrimaryWallet)"

definition submission :: "env \<Rightarrow> signer \<Rightarrow> js_exn + string" where
  "submission ev s =
     andThen (transaction_outcome ev) (andThen (blockhash_outcome ev)
       (andThen (sign_outcome ev s) (andThen (send_outcome ev)
          (andThen (confirm_outcome ev) (send_outcome ev)))))"

fun awaited :: "env \<Rightarrow> operation \<Rightarrow> hook \<Rightarrow> js_exn + string" where
  "awaited ev (SetTo v) c = andThen (newBN v) (rpc_outcome ev)"
| "awaited ev IncrementOnER c = submission ev (chosenSigner c)"
| "awaited ev DecrementOnER c = submission ev (chosenSigner c)"
| "awaited ev (SetOnER v) c = submission ev (chosenSigner c)"
| "awaited ev CommitOp c = submission ev PrimaryWallet"
| "awaited ev UndelegateOp c = submission ev PrimaryWallet"
| "awaited ev _ c = rpc_outcome ev"

text \<open>The instruction an operation submits.\<close>

fun instructionOf :: "operation \<Rightarrow> instruction" where
  "instructionOf Initialize = InitializeIx"
| "instructionOf Increment = IncrementIx"
| "instructionOf Decrement = DecrementIx"
| "instructionOf (SetTo v) = SetIx v"
| "instructionOf IncrementOnER = IncrementIx"
| "instructionOf DecrementOnER = DecrementIx"
| "instructionOf (SetOnER v) = SetIx v"
| "instructionOf DelegateOp = DelegateIx"
| "instructionOf CommitOp = CommitIx"
| "instructionOf UndelegateOp = UndelegateIx"

subsection \<open>Reading a trace\<close>

text \<open>Who was asked to sign, and the fee payer of the transaction handed over.\<close>

fun signing :: "event \<Rightarrow> (signer \<times> PublicKey option) list" where
  "signing (SignTransaction s tx) = [(s, feePayer tx)]"
| "signing _ = []"

definition signRequests :: "event list \<Rightarrow> (signer \<times> PublicKey option) list" where
  "signRequests tr = concat (map signing tr)"

fun isSetter :: "event \<Rightarrow> bool" where
  "isSetter (SetCounterAccount v) = True"
| "isSetter (SetIsLoading v) = True"
| "isSetter (SetIsDelegating v) = True"
| "isSetter (SetError v) = True"
| "isSetter (SetDelegationStatus v) = True"
| "isSetter (SetErCounterValue v) = True"
| "isSetter _ = False"

text \<open>The calls to the outside among the events.\<close>

definition calls :: "event list \<Rightarrow> event list" where
  "calls tr = filter (\<lambda>e. \<not> isSetter e) tr"

text \<open>
  An event a rollup action may produce: no blockhash of the base layer, and raw
  transactions only to the rollup with \<^verbatim>\<open>skipPreflight: true\<close>.
\<close>

fun rollupOnly :: "event \<Rightarrow> bool" where
  "rollupOnly (GetLatestBlockhash l) = (l = RollupLedger)"
| "rollupOnly (SendRawTransaction l tx skipPreflight) = (l = RollupLedger \<and> skipPreflight)"
| "rollupOnly (ConfirmTransaction l h) = (l = RollupLedger)"
| "rollupOnly (Rpc p m a skipPreflight) = False"
| "rollupOnly _ = True"

fun notSessionSigned :: "event \<Rightarrow> bool" where
  "notSessionSigned (SignTransaction s tx) = (s = PrimaryWallet)"
| "notSessionSigned _ = True"


subsection \<open>Relations every step of a program keeps\<close>

definition stable :: "(hook \<Rightarrow> hook \<Rightarrow> bool) \<Rightarrow> 'a prog \<Rightarrow> bool" where
  "stable R m = (\<forall>st. R st (snd (m st)))"

definition preorder_rel :: "(hook \<Rightarrow> hook \<Rightarrow> bool) \<Rightarrow> bool" where
  "preorder_rel R = ((\<forall>a. R a a) \<and> (\<forall>a b c. R a b \<longrightarrow> R b c \<longrightarrow> R a c))"

text \<open>The trace grows, by events that satisfy \<open>Q\<close>.\<close>

definition emits :: "(event \<Rightarrow> bool) \<Rightarrow> hook \<Rightarrow> hook \<Rightarrow> bool" where
  "emits Q st st' = (\<exists>new. trace st' = trace st @ new \<and> list_all Q new)"


definition keeps_error :: "hook \<Rightarrow> hook \<Rightarrow> bool" where
  "keeps_error st st' = (error st' = error st)"

text \<open>The error slot is as before, or clear, or holds the message of a failed
  base-layer account fetch.\<close>

definition error_of_refresh :: "env \<Rightarrow> hook \<Rightarrow> hook \<Rightarrow> bool" where
  "error_of_refresh ev st st' =
     (error st' = error st \<or> error st' = None
      \<or> (\<exists>msg. fetch_outcome ev BaseLedger = Inl (JsError msg) \<and> error st' = Some msg))"

text \<open>
  The try/catch/finally discipline of an operation \<open>op\<close> that ran from \<open>st\<close> with
  outcome \<open>out\<close>: the busy flag is down; the trace is the entry setters, then the attempt,
  then the setters of the \<^verbatim>\<open>finally\<close> block; a thrown value left its message in the
  error slot; after a return the slot is clear, unless the operation ends with a refresh
  of the account whose base-layer fetch failed and left its message.
\<close>

definition disciplined :: "env \<Rightarrow> operation \<Rightarrow> hook \<Rightarrow> (js_exn + string) \<times> hook \<Rightarrow> bool" where
  "disciplined ev op st out =
     (case out of (r, st') \<Rightarrow>
        isLoading st' = False
        \<and> (\<exists>mid. trace st' = trace st @ entry op @ mid @ exit op)
        \<and> (\<forall>e. r = Inl e \<longrightarrow> error st' = Some (message e (fallback op)))
        \<and> (\<forall>x. r = Inr x \<longrightarrow>
              error st' = None
              \<or> (refreshes op
                  \<and> (\<exists>msg. fetch_outcome ev BaseLedger = Inl (JsError msg)
                           \<and> error st' = Some msg))))"

subsection \<open>Example states\<close>

text \<open>
  A connected wallet without a session, whose counter address is known and whose cached
  rollup value is 7; an outside world in which every call succeeds and the base-layer
  account is owned by the delegation program; and one in which reading an account fails.
\<close>

definition example_hook :: hook where
  "example_hook =
     \<lparr>wallet = \<lparr>publicKey = Some ''alice'', signTransaction = True,
                 signAllTransactions = True\<rparr>,
      sessionWallet = \<lparr>session_publicKey = None, session_signTransaction = True,
                        sessionToken = None\<rparr>,
      counterPubkey = Some ''pda'', counterAccount = None, isLoading = False,
      isDelegating = False, error = None, delegationStatus = Checking,
      erCounterValue = Some 7, trace = []\<rparr>"

definition example_env :: env where
  "example_env =
     \<lparr>rpc_outcome = Inr ''sig'',
      fetch_outcome = (\<lambda>l. Inr \<lparr>count = 3, authority = ''alice''\<rparr>),
      accountInfo_outcome = Inr (Some DELEGATION_PROGRAM_ID),
      transaction_outcome = Inr (), blockhash_outcome = Inr ''blockhash'',
      sign_outcome = (\<lambda>s. Inr ()), send_outcome = Inr ''txHash'',
      confirm_outcome = Inr (), commitmentSignature_outcome = Inr ''commitSig''\<rparr>"

definition fetch_fails_env :: env where
  "fetch_fails_env =
     \<lparr>rpc_outcome = Inr ''sig'',
      fetch_outcome = (\<lambda>l. Inl (JsError ''Failed to fetch'')),
      accountInfo_outcome = Inr (Some DELEGATION_PROGRAM_ID),
      transaction_outcome = Inr (), blockhash_outcome = Inr ''blockhash'',
      sign_outcome = (\<lambda>s. Inr ()), send_outcome = Inr ''txHash'',
      confirm_outcome = Inr (), commitmentSignature_outcome = Inr ''commitSig''\<rparr>"

text \<open>
  The same wallet with an active session; a disconnected wallet; an outside world whose
  base-layer account read fails.
\<close>

definition session_hook :: hook where
  "session_hook =
     \<lparr>wallet = \<lparr>publicKey = Some ''alice'', signTransaction = True,
                 signAllTransactions = True\<rparr>,
      sessionWallet = \<lparr>session_publicKey = Some ''sessionKey'', session_signTransaction = True,
                        sessionToken = Some ''token''\<rparr>,
      counterPubkey = Some ''pda'', counterAccount = None, isLoading = False,
      isDelegating = False, error = None, delegationStatus = Delegated,
      erCounterValue = Some 7, trace = []\<rparr>"

definition disconnected_hook :: hook where
  "disconnected_hook =
     \<lparr>wallet = \<lparr>publicKey = None, signTransaction = False, signAllTransactions = False\<rparr>,
      sessionWallet = \<lparr>session_publicKey = None, session_signTransaction = True,
                        sessionToken = None\<rparr>,
      counterPubkey = None, counterAccount = None, isLoading = False,
      isDelegating = False, error = None, delegationStatus = Checking,
      erCounterValue = None, trace = []\<rparr>"

definition base_read_fails_env :: env where
  "base_read_fails_env =
     \<lparr>rpc_outcome = Inr ''sig'',
      fetch_outcome = (\<lambda>l. Inr \<lparr>count = 3, authority = ''alice''\<rparr>),
      accountInfo_outcome = Inl (JsError ''Network request failed''),
      transaction_outcome = Inr (), blockhash_outcome = Inr ''blockhash'',
      sign_outcome = (\<lambda>s. Inr ()), send_outcome = Inr ''txHash'',
      confirm_outcome = Inr (), commitmentSignature_outcome = Inr ''commitSig''\<rparr>"

text \<open>
  A wallet whose adapter offers no \<^verbatim>\<open>signAllTransactions\<close>, so that the hook has no
  program client; and a session with a token whose wallet offers no
  \<^verbatim>\<open>signTransaction\<close>.
\<close>

definition signless_hook :: hook where
  "signless_hook =
     \<lparr>wallet = \<lparr>publicKey = Some ''alice'', signTransaction = True,
                 signAllTransactions = False\<rparr>,
      sessionWallet = \<lparr>session_publicKey = None, session_signTransaction = True,
                        sessionToken = None\<rparr>,
      counterPubkey = Some ''pda'', counterAccount = None, isLoading = False,
      isDelegating = False, error = None, delegationStatus = Checking,
      erCounterValue = Some 7, trace = []\<rparr>"

definition token_only_hook :: hook where
  "token_only_hook =
     \<lparr>wallet = \<lparr>publicKey = Some ''alice'', signTransaction = True,
                 signAllTransactions = True\<rparr>,
      sessionWallet = \<lparr>session_publicKey = Some ''sessionKey'', session_signTransaction = False,
                        sessionToken = Some ''token''\<rparr>,
      counterPubkey = Some ''pda'', counterAccount = None, isLoading = False,
      isDelegating = False, error = None, delegationStatus = Delegated,
      erCounterValue = Some 7, trace = []\<rparr>"

definition undelegated_hook :: hook where
  "undelegated_hook = example_hook\<lparr>delegationStatus := Undelegated\<rparr>"

definition rpc_fails_env :: env where
  "rpc_fails_env =
     \<lparr>rpc_outcome = Inl NonError,
      fetch_outcome = (\<lambda>l. Inr \<lparr>count = 3, authority = ''alice''\<rparr>),
      accountInfo_outcome = Inr None,
      transaction_outcome = Inr (), blockhash_outcome = Inr ''blockhash'',
      sign_outcome = (\<lambda>s. Inr ()), send_outcome = Inr ''txHash'',
      confirm_outcome = Inr (), commitmentSignature_outcome = Inr ''commitSig''\<rparr>"

section \<open>Properties\<close>

lemmas prog_defs = return_def throw_def bind_def seq_def try_catch_def try_finally_def call_def
  setCounterAccount_def setIsLoading_def setIsDelegating_def setError_def
  setDelegationStatus_def setErCounterValue_def sleep_def evaluate_def

lemmas example_defs = example_hook_def example_env_def fetch_fails_env_def session_hook_def
  disconnected_hook_def base_read_fails_env_def rpc_fails_env_def signless_hook_def
  token_only_hook_def undelegated_hook_def program_def erProvider_def erProgram_def

subsection \<open>Relations kept by every step\<close>

lemma stableD: "stable R m \<Longrightarrow> R st (snd (m st))"
  by (simp add: stable_def)

lemma stable_return: "preorder_rel R \<Longrightarrow> stable R (return x)"
  by (simp add: stable_def preorder_rel_def return_def)

lemma stable_throw: "preorder_rel R \<Longrightarrow> stable R (throw e)"
  by (simp add: stable_def preorder_rel_def throw_def)

lemma stable_evaluate: "preorder_rel R \<Longrightarrow> stable R (evaluate r)"
  by (simp add: stable_def preorder_rel_def evaluate_def)

lemma stable_bind:
  assumes "preorder_rel R" and "stable R m" and "\<And>x. stable R (f x)"
  shows "stable R (bind m f)"
  unfolding stable_def
proof
  fix st
  obtain r st' where m: "m st = (r, st')" by (cases "m st")
  have a: "R st st'" using stableD[OF assms(2), of st] m by simp
  show "R st (snd (bind m f st))"
  proof (cases r)
    case (Inl e)
    then show ?thesis using a m by (simp add: bind_def)
  next
    case (Inr x)
    have "R st' (snd (f x st'))" using stableD[OF assms(3)] .
    then show ?thesis using a m Inr assms(1) unfolding preorder_rel_def bind_def
      by (metis (mono_tags, lifting) old.prod.case sum.simps(6))
  qed
qed

lemma stable_seq:
  assumes "preorder_rel R" and "stable R m" and "stable R n"
  shows "stable R (seq m n)"
  unfolding seq_def using assms by (intro stable_bind) simp_all

lemma stable_try_catch:
  assumes "preorder_rel R" and "stable R m" and "\<And>e. stable R (h e)"
  shows "stable R (try_catch m h)"
  unfolding stable_def
proof
  fix st
  obtain r st' where m: "m st = (r, st')" by (cases "m st")
  have a: "R st st'" using stableD[OF assms(2), of st] m by simp
  show "R st (snd (try_catch m h st))"
  proof (cases r)
    case (Inr x)
    then show ?thesis using a m by (simp add: try_catch_def)
  next
    case (Inl e)
    have "R st' (snd (h e st'))" using stableD[OF assms(3)] .
    then show ?thesis using a m Inl assms(1) unfolding preorder_rel_def try_catch_def
      by (metis (mono_tags, lifting) old.prod.case sum.simps(5))
  qed
qed

lemma stable_try_finally:
  assumes "preorder_rel R" and "stable R m" and "stable R f"
  shows "stable R (try_finally m f)"
  unfolding stable_def
proof
  fix st
  obtain r st' where m: "m st = (r, st')" by (cases "m st")
  have a: "R st st'" using stableD[OF assms(2), of st] m by simp
  have "R st' (snd (f st'))" using stableD[OF assms(3)] .
  then show "R st (snd (try_finally m f st))"
    using a m assms(1) unfolding preorder_rel_def try_finally_def
    by (metis (mono_tags, lifting) old.prod.case snd_conv)
qed

lemma stable_if:
  "stable R m \<Longrightarrow> stable R n \<Longrightarrow> stable R (if b then m else n)"
  by simp

lemma stable_case_option:
  "stable R m \<Longrightarrow> (\<And>x. stable R (f x)) \<Longrightarrow> stable R (case v of None \<Rightarrow> m | Some x \<Rightarrow> f x)"
  by (cases v) simp_all

lemma stable_case_js_exn:
  "(\<And>x. stable R (f x)) \<Longrightarrow> stable R m \<Longrightarrow> stable R (case v of JsError x \<Rightarrow> f x | NonError \<Rightarrow> m)"
  by (cases v) simp_all

lemmas stable_rules = stable_return stable_throw stable_evaluate stable_bind stable_seq stable_try_catch
  stable_try_finally stable_if stable_case_option stable_case_js_exn

lemma preorder_emits: "preorder_rel (emits Q)"
proof -
  have "emits Q a a" for a
    by (simp add: emits_def)
  moreover have "emits Q a c" if ab: "emits Q a b" and bc: "emits Q b c" for a b c
  proof -
    obtain n1 where n1: "trace b = trace a @ n1" "list_all Q n1"
      using ab by (auto simp: emits_def)
    obtain n2 where n2: "trace c = trace b @ n2" "list_all Q n2"
      using bc by (auto simp: emits_def)
    show ?thesis
      unfolding emits_def by (intro exI[of _ "n1 @ n2"]) (simp add: n1 n2)
  qed
  ultimately show ?thesis
    unfolding preorder_rel_def by blast
qed


lemma preorder_keeps_error: "preorder_rel keeps_error"
  by (simp add: preorder_rel_def keeps_error_def)

lemma preorder_error_of_refresh: "preorder_rel (error_of_refresh ev)"
  unfolding preorder_rel_def error_of_refresh_def by auto

lemma emits_call: "Q e \<Longrightarrow> stable (emits Q) (call e outcome)"
  by (simp add: stable_def emits_def call_def)

lemma emits_sleep: "Q (Timeout ms) \<Longrightarrow> stable (emits Q) (sleep ms)"
  by (simp add: stable_def emits_def sleep_def)

lemma emits_setters:
  "Q (SetCounterAccount a) \<Longrightarrow> stable (emits Q) (setCounterAccount a)"
  "Q (SetIsLoading b) \<Longrightarrow> stable (emits Q) (setIsLoading b)"
  "Q (SetIsDelegating b) \<Longrightarrow> stable (emits Q) (setIsDelegating b)"
  "Q (SetError e) \<Longrightarrow> stable (emits Q) (setError e)"
  "Q (SetDelegationStatus s) \<Longrightarrow> stable (emits Q) (setDelegationStatus s)"
  "Q (SetErCounterValue v) \<Longrightarrow> stable (emits Q) (setErCounterValue v)"
  by (simp_all add: stable_def emits_def prog_defs)


lemma keeps_error_steps:
  "stable keeps_error (call e outcome)"
  "stable keeps_error (sleep ms)"
  "stable keeps_error (setCounterAccount a)"
  "stable keeps_error (setIsLoading b)"
  "stable keeps_error (setIsDelegating b)"
  "stable keeps_error (setDelegationStatus s)"
  "stable keeps_error (setErCounterValue v)"
  by (simp_all add: stable_def keeps_error_def prog_defs)

lemma error_of_refresh_steps:
  "stable (error_of_refresh ev) (call e outcome)"
  "stable (error_of_refresh ev) (sleep ms)"
  "stable (error_of_refresh ev) (setCounterAccount a)"
  "stable (error_of_refresh ev) (setIsLoading b)"
  "stable (error_of_refresh ev) (setIsDelegating b)"
  "stable (error_of_refresh ev) (setDelegationStatus s)"
  "stable (error_of_refresh ev) (setErCounterValue v)"
  "stable (error_of_refresh ev) (setError None)"
  by (simp_all add: stable_def error_of_refresh_def prog_defs)

lemmas grows_rules = stable_rules preorder_emits emits_call emits_setters emits_sleep


lemmas keeps_error_rules = stable_rules preorder_keeps_error keeps_error_steps

lemmas error_of_refresh_rules = stable_rules preorder_error_of_refresh error_of_refresh_steps

subsection \<open>Reading traces and memoised values\<close>

lemma signRequests_simps [simp]:
  "signRequests [] = []"
  "signRequests (e # tr) = signing e @ signRequests tr"
  "signRequests (tr @ tr') = signRequests tr @ signRequests tr'"
  by (simp_all add: signRequests_def)

lemma calls_simps [simp]:
  "calls [] = []"
  "calls (e # tr) = (if isSetter e then calls tr else e # calls tr)"
  "calls (tr @ tr') = calls tr @ calls tr'"
  by (simp_all add: calls_def)

lemma memo_session [simp]:
  "program (st\<lparr>sessionWallet := sw\<rparr>) = program st"
  "erProvider (st\<lparr>sessionWallet := sw\<rparr>) = erProvider st"
  "erProgram (st\<lparr>sessionWallet := sw\<rparr>) = erProgram st"
  by (simp_all add: program_def erProvider_def erProgram_def split: option.splits)

lemma memo_status [simp]:
  "program (st\<lparr>delegationStatus := s\<rparr>) = program st"
  "erProvider (st\<lparr>delegationStatus := s\<rparr>) = erProvider st"
  "erProgram (st\<lparr>delegationStatus := s\<rparr>) = erProgram st"
  by (simp_all add: program_def erProvider_def erProgram_def split: option.splits)


subsection \<open>The shape of an operation\<close>

text \<open>
  An operation past its guard sets the busy flag, clears the error slot and runs its body
  inside \<^verbatim>\<open>try/catch/finally\<close>: the outcome in terms of what the body does.
\<close>

lemma guarded_eq:
  "seq (setIsLoading True) (seq (setError None)
     (try_finally
        (try_catch body (\<lambda>err. seq (setError (Some (message err fb))) (throw err)))
        (setIsLoading False))) st =
   (case body (st\<lparr>isLoading := True, error := None,
                   trace := trace st @ [SetIsLoading True, SetError None]\<rparr>) of
      (Inl e, sb) \<Rightarrow>
        (Inl e, sb\<lparr>error := Some (message e fb), isLoading := False,
                   trace := trace sb @ [SetError (Some (message e fb)), SetIsLoading False]\<rparr>)
    | (Inr x, sb) \<Rightarrow>
        (Inr x, sb\<lparr>isLoading := False, trace := trace sb @ [SetIsLoading False]\<rparr>))"
  by (simp add: prog_defs split: prod.splits sum.splits)

lemma delegating_eq:
  "seq (setIsLoading True) (seq (setIsDelegating True) (seq (setError None)
     (try_finally
        (try_catch body (\<lambda>err. seq (setError (Some (message err fb))) (throw err)))
        (seq (setIsLoading False) (setIsDelegating False))))) st =
   (case body (st\<lparr>isLoading := True, isDelegating := True, error := None,
                   trace := trace st @ [SetIsLoading True, SetIsDelegating True, SetError None]\<rparr>) of
      (Inl e, sb) \<Rightarrow>
        (Inl e, sb\<lparr>error := Some (message e fb), isLoading := False, isDelegating := False,
                   trace := trace sb @ [SetError (Some (message e fb)), SetIsLoading False,
                                        SetIsDelegating False]\<rparr>)
    | (Inr x, sb) \<Rightarrow>
        (Inr x, sb\<lparr>isLoading := False, isDelegating := False,
                   trace := trace sb @ [SetIsLoading False, SetIsDelegating False]\<rparr>))"
  by (simp add: prog_defs split: prod.splits sum.splits)

lemmas er_wrapper_defs = incrementOnER_def decrementOnER_def setOnER_def

lemmas op_defs = initialize_def increment_def decrement_def set'_def delegate_def commit_def
  undelegate_def

lemma bind_evaluate:
  "bind (evaluate (Inr x)) f = f x"
  "bind (evaluate (Inl e)) f = throw e"
  by (rule ext, simp add: bind_def evaluate_def throw_def)+

lemma newBN_cases:
  "\<bar>v\<bar> < 2 ^ 53 \<Longrightarrow> newBN v = Inr v"
  "\<not> \<bar>v\<bar> < 2 ^ 53 \<Longrightarrow> newBN v = Inl (JsError ''Assertion failed'')"
  by (simp_all add: newBN_def)

lemma run_onRollup:
  assumes "onRollup op" and "ready op c"
  shows "\<exists>n. run ev op c = performErAction ev (instructionOf op) n c
             \<and> ''Failed to '' @ n @ '' on ER'' = fallback op"
  using assms by (cases op) (auto simp: er_wrapper_defs bind_evaluate newBN_cases)

text \<open>The result of a program, step by step; the state plays no part in it.\<close>

lemma fst_steps:
  "fst (return x st) = Inr x"
  "fst (throw e st) = Inl e"
  "fst (evaluate r st) = r"
  "fst (call ev' out st) = out"
  "fst (sleep ms st) = Inr ()"
  "fst (setCounterAccount a st) = Inr ()"
  "fst (setIsLoading b st) = Inr ()"
  "fst (setIsDelegating b st) = Inr ()"
  "fst (setError er st) = Inr ()"
  "fst (setDelegationStatus s st) = Inr ()"
  "fst (setErCounterValue v st) = Inr ()"
  by (simp_all add: prog_defs)

lemma fst_bind:
  "fst (bind m f st) = (case fst (m st) of Inl e \<Rightarrow> Inl e | Inr x \<Rightarrow> fst (f x (snd (m st))))"
  by (simp add: bind_def split: prod.splits sum.splits)

lemma fst_seq:
  "fst (seq m n st) = (case fst (m st) of Inl e \<Rightarrow> Inl e | Inr x \<Rightarrow> fst (n (snd (m st))))"
  by (simp add: seq_def fst_bind)

lemma fst_swallow: "fst (try_catch m (\<lambda>err. return ()) st) = Inr ()"
  by (simp add: try_catch_def return_def split: prod.splits sum.splits)

lemma fst_fetchCounterAccount: "fst (fetchCounterAccount ev c st) = Inr ()"
  by (auto simp: fetchCounterAccount_def prog_defs split: option.splits sum.splits js_exn.splits)

lemma fst_checkDelegationStatus: "fst (checkDelegationStatus ev c st) = Inr ()"
  by (auto simp: checkDelegationStatus_def prog_defs split: option.splits sum.splits)

lemmas result_rules = fst_steps fst_bind fst_seq fst_swallow fst_fetchCounterAccount
  fst_checkDelegationStatus

lemma guarded_fst:
  "fst (seq (setIsLoading True) (seq (setError None)
     (try_finally
        (try_catch body (\<lambda>err. seq (setError (Some (message err fb))) (throw err)))
        (setIsLoading False))) st) =
   fst (body (st\<lparr>isLoading := True, error := None,
                   trace := trace st @ [SetIsLoading True, SetError None]\<rparr>))"
  by (simp add: guarded_eq split: prod.splits sum.splits)

lemma delegating_fst:
  "fst (seq (setIsLoading True) (seq (setIsDelegating True) (seq (setError None)
     (try_finally
        (try_catch body (\<lambda>err. seq (setError (Some (message err fb))) (throw err)))
        (seq (setIsLoading False) (setIsDelegating False))))) st) =
   fst (body (st\<lparr>isLoading := True, isDelegating := True, error := None,
                   trace := trace st @ [SetIsLoading True, SetIsDelegating True, SetError None]\<rparr>))"
  by (simp add: delegating_eq split: prod.splits sum.splits)

lemma submission_Inr:
  assumes "submission ev s = Inr h"
  shows "transaction_outcome ev = Inr ()" and "\<exists>bh. blockhash_outcome ev = Inr bh"
    and "sign_outcome ev s = Inr ()" and "send_outcome ev = Inr h"
    and "confirm_outcome ev = Inr ()"
  using assms by (auto simp: submission_def andThen_def split: sum.splits)

lemma performErAction_result:
  assumes "program c = Some p" "erProvider c = Some erp" "publicKey (wallet c) = Some wpk"
    "counterPubkey c = Some pk"
  shows "fst (performErAction ev m n c st) = submission ev (chosenSigner c)"
  using assms
  apply (simp add: performErAction_def guarded_fst)
  apply (simp add: Let_def transaction_def signWith_def result_rules submission_def
           andThen_def chosenSigner_def erProgram_def split: sum.splits)
  done

lemma run_not_ready:
  assumes "\<not> ready op c"
  shows "\<exists>msg. run ev op c st = (Inl (JsError msg), st)"
proof (cases op)
  case (SetOnER v)
  show ?thesis
  proof (cases "\<bar>v\<bar> < 2 ^ 53")
    case True
    then show ?thesis using assms SetOnER
      by (auto simp: setOnER_def performErAction_def throw_def bind_evaluate newBN_cases
               split: option.splits)
  next
    case False
    then show ?thesis using SetOnER
      by (cases "program c") (simp_all add: setOnER_def throw_def bind_evaluate newBN_cases)
  qed
qed (use assms in \<open>auto simp: op_defs er_wrapper_defs performErAction_def throw_def
                             split: option.splits\<close>)

text \<open>A rollup action in which every call up to the confirmation succeeds.\<close>

lemma performErAction_success:
  assumes "program c = Some p" "erProvider c = Some erp" "publicKey (wallet c) = Some wpk" "counterPubkey c = Some pk"
    and "transaction_outcome ev = Inr ()" "blockhash_outcome ev = Inr bh"
    and "sign_outcome ev (chosenSigner c) = Inr ()" "send_outcome ev = Inr h"
    and "confirm_outcome ev = Inr ()"
  shows "\<exists>tx sg. 
     fst (performErAction ev m n c st) = Inr h \<and>
     tx_method tx = m \<and> recentBlockhash tx = Some bh \<and> signedBy tx = [sg] \<and>
     trace (snd (performErAction ev m n c st)) = trace st @
      [SetIsLoading True, SetError None, 
       BuildTransaction m (tx_accounts tx), GetLatestBlockhash RollupLedger,
       SignTransaction sg (tx\<lparr>signedBy := []\<rparr>),
       SendRawTransaction RollupLedger tx True,
       ConfirmTransaction RollupLedger h,
       FetchCounter RollupLedger pk] @
       (case fetch_outcome ev RollupLedger of Inl e \<Rightarrow> [] | Inr account \<Rightarrow> [SetErCounterValue (Some (count account))])
       @ [SetIsLoading False] \<and>
     erCounterValue (snd (performErAction ev m n c st)) = 
       (case fetch_outcome ev RollupLedger of Inl e \<Rightarrow> erCounterValue st | Inr account \<Rightarrow> Some (count account))"
proof (cases "sessionToken (sessionWallet c) \<noteq> None \<and> session_signTransaction (sessionWallet c)")
  case True
  then have "chosenSigner c = SessionKey"
    by (simp add: chosenSigner_def)
  then have "sign_outcome ev SessionKey = Inr ()"
    using assms(7) by simp
  then show ?thesis using assms(1-6,8,9) True
    by (cases "fetch_outcome ev RollupLedger")
       (auto simp: performErAction_def guarded_eq transaction_def signWith_def Let_def
                   erProgram_def prog_defs)
next
  case False
  then have "chosenSigner c = PrimaryWallet"
    by (auto simp: chosenSigner_def)
  then have "sign_outcome ev PrimaryWallet = Inr ()"
    using assms(7) by simp
  then show ?thesis using assms(1-6,8,9) False
    by (cases "fetch_outcome ev RollupLedger")
       (auto simp: performErAction_def guarded_eq transaction_def signWith_def Let_def
                   erProgram_def prog_defs)
qed

subsection \<open>The rollup subscription\<close>

lemma runCleanup_listeners:
  "clean r \<Longrightarrow> listeners (runCleanup r) = [] \<and> effectCleanup (runCleanup r) = None"
  by (auto simp: clean_def runCleanup_def removeAccountChangeListener_def split: option.splits)

lemma effect_after_cleanup:
  assumes "listeners r = []" and "effectCleanup r = None"
  shows "effect_inv st
           (erSubscriptionEffect st
              (r\<lparr>effectDeps := Some (erProgram st, counterPubkey st, delegationStatus st)\<rparr>))"
  using assms
  by (auto simp: effect_inv_def erSubscriptionEffect_def onAccountChange_def subscribed_def
           split: option.splits)

lemma effect_inv_clean: "effect_inv st r \<Longrightarrow> clean r"
  by (auto simp: effect_inv_def clean_def split: option.splits)

lemma effect_inv_deps:
  assumes "effect_inv st r"
    and "effectDeps r = Some (erProgram st', counterPubkey st', delegationStatus st')"
  shows "effect_inv st' r"
  using assms by (auto simp: effect_inv_def subscribed_def split: option.splits)

lemma commitRender_inv:
  assumes "clean r"
    and "effectDeps r = Some (erProgram st, counterPubkey st, delegationStatus st)
         \<longrightarrow> effect_inv st r"
  shows "effect_inv st (commitRender r (fresh, st))"
proof (cases "effectDeps r = Some (erProgram st, counterPubkey st, delegationStatus st) \<and> \<not> fresh")
  case True
  then show ?thesis using assms by (simp add: commitRender_def)
next
  case False
  have c: "listeners (runCleanup r) = []" "effectCleanup (runCleanup r) = None"
    using runCleanup_listeners[OF assms(1)] by simp_all
  from False have "commitRender r (fresh, st) =
      erSubscriptionEffect st
        ((runCleanup r)\<lparr>effectDeps := Some (erProgram st, counterPubkey st, delegationStatus st)\<rparr>)"
    by (auto simp: commitRender_def Let_def)
  then show ?thesis using effect_after_cleanup[OF c] by simp
qed

text \<open>Over any renders: the bookkeeping stays clean, and agrees with whichever state
  the last effect ran for.\<close>

lemma foldl_commitRender_inv:
  assumes "clean r"
    and "\<forall>st. effectDeps r = Some (erProgram st, counterPubkey st, delegationStatus st)
           \<longrightarrow> effect_inv st r"
  shows "clean (foldl commitRender r renders) \<and>
         (\<forall>st. effectDeps (foldl commitRender r renders)
                 = Some (erProgram st, counterPubkey st, delegationStatus st)
               \<longrightarrow> effect_inv st (foldl commitRender r renders))"
  using assms
proof (induction renders arbitrary: r)
  case Nil
  then show ?case by simp
next
  case (Cons x xs)
  obtain fresh st where x: "x = (fresh, st)" by (cases x)
  have i: "effect_inv st (commitRender r x)"
    unfolding x using Cons.prems by (intro commitRender_inv) auto
  show ?case
    using Cons.IH[of "commitRender r x"] i effect_inv_clean effect_inv_deps
    by (metis foldl_Cons)
qed

lemma lifecycle_inv: "effect_inv st (lifecycle (renders @ [(fresh, st)]))"
proof -
  have "clean (foldl commitRender mounted renders) \<and>
        (\<forall>st. effectDeps (foldl commitRender mounted renders)
                = Some (erProgram st, counterPubkey st, delegationStatus st)
              \<longrightarrow> effect_inv st (foldl commitRender mounted renders))"
    by (rule foldl_commitRender_inv) (simp_all add: clean_def mounted_def)
  then show ?thesis
    unfolding lifecycle_def foldl_append by (simp add: commitRender_inv)
qed

text \<open>
  C1. After every render of the hook, whatever renders came before, the rollup
  connection carries a listener exactly when the rollup program client and the counter
  address are available and the delegation status is \<open>Delegated\<close>; it is then the only
  listener and listens on the counter address. So the subscription is torn down as soon as
  a render sees another status or no address. Unmounting removes it as well.
\<close>

theorem rollup_subscription_iff_delegated:
  "map snd (listeners (lifecycle (renders @ [(fresh, st)]))) =
     (case (erProgram st, counterPubkey st) of
        (Some ep, Some pk) \<Rightarrow> if delegationStatus st = Delegated then [pk] else []
      | _ \<Rightarrow> [])
   \<and> listeners (unmount (lifecycle (renders @ [(fresh, st)]))) = []"
proof -
  have i: "effect_inv st (lifecycle (renders @ [(fresh, st)]))"
    by (rule lifecycle_inv)
  have "map snd (listeners (lifecycle (renders @ [(fresh, st)]))) =
     (case (erProgram st, counterPubkey st) of
        (Some ep, Some pk) \<Rightarrow> if delegationStatus st = Delegated then [pk] else []
      | _ \<Rightarrow> [])"
    using i by (auto simp: effect_inv_def subscribed_def split: option.splits)
  moreover have "listeners (unmount (lifecycle (renders @ [(fresh, st)]))) = []"
    using runCleanup_listeners[OF effect_inv_clean[OF i]] by (simp add: unmount_def)
  ultimately show ?thesis by simp
qed

theorem rollup_subscription_iff_delegated_witness:
  "map snd (listeners (lifecycle ([(False, example_hook)]
       @ [(False, example_hook\<lparr>delegationStatus := Delegated\<rparr>)]))) = [''pda'']
   \<and> map snd (listeners (lifecycle ([(False, example_hook\<lparr>delegationStatus := Delegated\<rparr>)]
       @ [(False, example_hook\<lparr>delegationStatus := Undelegated\<rparr>)]))) = []
   \<and> map snd (listeners (lifecycle ([(False, example_hook\<lparr>delegationStatus := Delegated\<rparr>)]
       @ [(True, example_hook\<lparr>delegationStatus := Delegated, counterPubkey := None\<rparr>)]))) = []"
  using rollup_subscription_iff_delegated
          [of "[(False, example_hook)]" False "example_hook\<lparr>delegationStatus := Delegated\<rparr>"]
        rollup_subscription_iff_delegated
          [of "[(False, example_hook\<lparr>delegationStatus := Delegated\<rparr>)]" False
              "example_hook\<lparr>delegationStatus := Undelegated\<rparr>"]
        rollup_subscription_iff_delegated
          [of "[(False, example_hook\<lparr>delegationStatus := Delegated\<rparr>)]" True
              "example_hook\<lparr>delegationStatus := Delegated, counterPubkey := None\<rparr>"]
  by (simp add: example_defs)

subsection \<open>The delegation-status check\<close>

text \<open>
  C2, as the claim states it, fails: for a known address whose account the delegation
  program owns, a hook without rollup program client (the wallet adapter offers no
  \<^verbatim>\<open>signAllTransactions\<close>) sets the status to \<open>Delegated\<close> and attempts no rollup read.
\<close>

theorem checkDelegationStatus_without_client_counterexample:
  "counterPubkey signless_hook = Some ''pda''
   \<and> accountInfo_outcome example_env = Inr (Some DELEGATION_PROGRAM_ID)
   \<and> erProgram signless_hook = None
   \<and> fst (checkDelegationStatus example_env signless_hook signless_hook) = Inr ()
   \<and> delegationStatus (snd (checkDelegationStatus example_env signless_hook signless_hook))
       = Delegated
   \<and> trace (snd (checkDelegationStatus example_env signless_hook signless_hook)) =
       [SetDelegationStatus Checking, GetAccountInfo BaseLedger ''pda'',
        SetDelegationStatus Delegated]"
  by (simp add: example_defs checkDelegationStatus_def prog_defs DELEGATION_PROGRAM_ID_def)

text \<open>
  C2, amended. For a known address, when the base-layer read answers: the check returns
  normally; an absent account gives \<open>Undelegated\<close> and clears the cached rollup value; an
  account owned by the delegation program gives \<open>Delegated\<close>, and, when the hook has a
  rollup program client, the rollup account is read right after the status is set, a
  failed read leaving the status \<open>Delegated\<close> and the cached value as it was (without a
  rollup program client no read is made); an account with any other owner gives
  \<open>Undelegated\<close> and clears the cached value.
\<close>

theorem checkDelegationStatus_by_owner:
  assumes "counterPubkey c = Some pk" and "accountInfo_outcome ev = Inr info"
  shows "case checkDelegationStatus ev c st of (r, st') \<Rightarrow>
           r = Inr () \<and>
           (info = None \<longrightarrow> delegationStatus st' = Undelegated \<and> erCounterValue st' = None) \<and>
           (info = Some DELEGATION_PROGRAM_ID \<longrightarrow>
              delegationStatus st' = Delegated \<and>
              trace st' = trace st @
                [SetDelegationStatus Checking, GetAccountInfo BaseLedger pk,
                 SetDelegationStatus Delegated] @
                (case erProgram c of
                   None \<Rightarrow> []
                 | Some ep \<Rightarrow>
                     FetchCounter RollupLedger pk #
                     (case fetch_outcome ev RollupLedger of
                        Inl e \<Rightarrow> []
                      | Inr account \<Rightarrow> [SetErCounterValue (Some (count account))])) \<and>
              erCounterValue st' =
                (case (erProgram c, fetch_outcome ev RollupLedger) of
                   (Some ep, Inr account) \<Rightarrow> Some (count account)
                 | _ \<Rightarrow> erCounterValue st)) \<and>
           (\<forall>owner. info = Some owner \<and> owner \<noteq> DELEGATION_PROGRAM_ID \<longrightarrow>
              delegationStatus st' = Undelegated \<and> erCounterValue st' = None)"
  using assms
  by (auto simp: checkDelegationStatus_def prog_defs split: option.splits sum.splits)

theorem checkDelegationStatus_by_owner_witness:
  "counterPubkey example_hook = Some ''pda''
   \<and> accountInfo_outcome example_env = Inr (Some DELEGATION_PROGRAM_ID)
   \<and> fst (checkDelegationStatus example_env example_hook example_hook) = Inr ()
   \<and> delegationStatus (snd (checkDelegationStatus example_env example_hook example_hook))
       = Delegated
   \<and> erCounterValue (snd (checkDelegationStatus example_env example_hook example_hook))
       = Some 3
   \<and> trace (snd (checkDelegationStatus example_env example_hook example_hook)) =
       [SetDelegationStatus Checking, GetAccountInfo BaseLedger ''pda'',
        SetDelegationStatus Delegated, FetchCounter RollupLedger ''pda'',
        SetErCounterValue (Some 3)]"
  using checkDelegationStatus_by_owner
          [where c = example_hook and pk = "''pda''" and ev = example_env
             and info = "Some DELEGATION_PROGRAM_ID" and st = example_hook]
  by (simp add: example_defs split: prod.splits)

text \<open>
  C3, as the claim states it, fails: a transport failure of the rollup read, raised
  during the check of an account that the delegation program owns, leaves the status
  \<open>Delegated\<close> and the cached rollup value in place.
\<close>

theorem checkDelegationStatus_rollup_failure_counterexample:
  "accountInfo_outcome fetch_fails_env = Inr (Some DELEGATION_PROGRAM_ID)
   \<and> fetch_outcome fetch_fails_env RollupLedger = Inl (JsError ''Failed to fetch'')
   \<and> fst (checkDelegationStatus fetch_fails_env example_hook example_hook) = Inr ()
   \<and> delegationStatus (snd (checkDelegationStatus fetch_fails_env example_hook example_hook))
       = Delegated
   \<and> erCounterValue (snd (checkDelegationStatus fetch_fails_env example_hook example_hook))
       = Some 7"
  by (simp add: example_defs checkDelegationStatus_def prog_defs DELEGATION_PROGRAM_ID_def)

text \<open>
  C3, amended. The check never throws and never writes the error slot, whatever fails.
  When the base-layer account read fails, the status resolves to \<open>Undelegated\<close> and the
  cached rollup value is cleared. When the rollup read fails (the account being owned by
  the delegation program), the status stays \<open>Delegated\<close> and the cached value is kept.
\<close>

theorem checkDelegationStatus_failures:
  "case checkDelegationStatus ev c st of (r, st') \<Rightarrow>
     r = Inr () \<and> error st' = error st \<and>
     (\<forall>pk e. counterPubkey c = Some pk \<and> accountInfo_outcome ev = Inl e \<longrightarrow>
        delegationStatus st' = Undelegated \<and> erCounterValue st' = None \<and>
        trace st' = trace st @
          [SetDelegationStatus Checking, GetAccountInfo BaseLedger pk,
           SetDelegationStatus Undelegated, SetErCounterValue None]) \<and>
     (\<forall>pk ep e. counterPubkey c = Some pk \<and> erProgram c = Some ep
         \<and> accountInfo_outcome ev = Inr (Some DELEGATION_PROGRAM_ID)
         \<and> fetch_outcome ev RollupLedger = Inl e \<longrightarrow>
        delegationStatus st' = Delegated \<and> erCounterValue st' = erCounterValue st)"
proof (cases "counterPubkey c")
  case None
  then show ?thesis
    by (simp add: checkDelegationStatus_def prog_defs)
next
  case (Some pk)
  show ?thesis
  proof (cases "accountInfo_outcome ev")
    case (Inl e)
    with Some show ?thesis
      by (simp add: checkDelegationStatus_def prog_defs)
  next
    case (Inr info)
    with Some show ?thesis
      by (cases "fetch_outcome ev RollupLedger")
         (auto simp: checkDelegationStatus_def prog_defs split: option.splits)
  qed
qed

theorem checkDelegationStatus_failures_witness:
  "counterPubkey example_hook = Some ''pda''
   \<and> accountInfo_outcome base_read_fails_env = Inl (JsError ''Network request failed'')
   \<and> fst (checkDelegationStatus base_read_fails_env example_hook
            (example_hook\<lparr>error := Some ''earlier''\<rparr>)) = Inr ()
   \<and> error (snd (checkDelegationStatus base_read_fails_env example_hook
            (example_hook\<lparr>error := Some ''earlier''\<rparr>))) = Some ''earlier''
   \<and> delegationStatus (snd (checkDelegationStatus base_read_fails_env example_hook
            (example_hook\<lparr>error := Some ''earlier''\<rparr>))) = Undelegated
   \<and> erCounterValue (snd (checkDelegationStatus base_read_fails_env example_hook
            (example_hook\<lparr>error := Some ''earlier''\<rparr>))) = None"
  using checkDelegationStatus_failures
          [where ev = base_read_fails_env and c = example_hook
             and st = "example_hook\<lparr>error := Some ''earlier''\<rparr>"]
  by (simp add: example_defs split: prod.splits)

subsection \<open>The signer of a rollup action\<close>






subsection \<open>The precondition of a rollup action\<close>

text \<open>
  C5. The rollup actions are meant for a delegated account, and the guard of the routine
  throws \<^verbatim>\<open>"Counter not initialized or not delegated"\<close>; but the guard tests the program
  client, the rollup provider, the wallet's public key and the counter address only. With
  the delegation status \<open>Undelegated\<close>, a connected wallet and a known address,
  \<^verbatim>\<open>incrementOnER\<close> does not fail: it builds, signs and submits a transaction to the
  rollup and returns its hash.
\<close>

theorem incrementOnER_submits_when_undelegated:
  "delegationStatus undelegated_hook = Undelegated
   \<and> fst (incrementOnER example_env undelegated_hook undelegated_hook) = Inr ''txHash''
   \<and> calls (trace (snd (incrementOnER example_env undelegated_hook undelegated_hook))) =
       [BuildTransaction IncrementIx (CounterAccounts ''pda'' (Some ''alice'') None),
        GetLatestBlockhash RollupLedger,
        SignTransaction PrimaryWallet
          \<lparr>tx_method = IncrementIx, tx_accounts = CounterAccounts ''pda'' (Some ''alice'') None,
           feePayer = Some ''alice'', recentBlockhash = Some ''blockhash'', signedBy = []\<rparr>,
        SendRawTransaction RollupLedger
          \<lparr>tx_method = IncrementIx, tx_accounts = CounterAccounts ''pda'' (Some ''alice'') None,
           feePayer = Some ''alice'', recentBlockhash = Some ''blockhash'',
           signedBy = [PrimaryWallet]\<rparr> True,
        ConfirmTransaction RollupLedger ''txHash'',
        FetchCounter RollupLedger ''pda'']"
  by (simp add: undelegated_hook_def example_defs incrementOnER_def performErAction_def
        guarded_eq transaction_def signWith_def Let_def prog_defs)

subsection \<open>The steps of a rollup action\<close>

lemma ready_result:
  assumes "ready op c"
  shows "fst (run ev op c st) = awaited ev op c"
proof (cases "onRollup op")
  case True
  then obtain p erp wpk pk where r: "program c = Some p" "erProvider c = Some erp"
      "publicKey (wallet c) = Some wpk" "counterPubkey c = Some pk"
    using assms by (cases op) auto
  obtain n where n: "run ev op c = performErAction ev (instructionOf op) n c"
    using run_onRollup[OF True assms, where ev = ev] by auto
  have "awaited ev op c = submission ev (chosenSigner c)"
    using True by (cases op) simp_all
  then show ?thesis
    unfolding n using performErAction_result[OF r] by simp
next
  case False
  show ?thesis
  proof (cases op)
    case Initialize
    then show ?thesis using assms
      apply (clarsimp simp: initialize_def guarded_fst)
      apply (simp add: result_rules split: sum.splits)
      done
  next
    case Increment
    then show ?thesis using assms
      apply (clarsimp simp: increment_def guarded_fst)
      apply (simp add: result_rules split: sum.splits)
      done
  next
    case Decrement
    then show ?thesis using assms
      apply (clarsimp simp: decrement_def guarded_fst)
      apply (simp add: result_rules split: sum.splits)
      done
  next
    case (SetTo v)
    then show ?thesis using assms
      apply (clarsimp simp: set'_def guarded_fst)
      apply (simp add: result_rules andThen_def split: sum.splits)
      done
  next
    case DelegateOp
    then show ?thesis using assms
      apply (clarsimp simp: delegate_def delegating_fst)
      apply (simp add: result_rules split: sum.splits)
      done
  next
    case CommitOp
    then show ?thesis using assms
      apply (clarsimp simp: commit_def guarded_fst)
      apply (simp add: Let_def transaction_def signWith_def result_rules
                     submission_def andThen_def split: sum.splits)
      done
  next
    case UndelegateOp
    then show ?thesis using assms
      apply (clarsimp simp: undelegate_def guarded_fst)
      apply (simp add: Let_def transaction_def signWith_def
                     result_rules submission_def andThen_def split: sum.splits)
      done
  qed (use False in simp_all)
qed

lemma returns_ready:
  assumes "fst (run ev op c st) = Inr h"
  shows "ready op c" and "awaited ev op c = Inr h"
proof -
  show r: "ready op c"
    using assms run_not_ready[of op c ev st] by (cases "ready op c") auto
  show "awaited ev op c = Inr h"
    using ready_result[OF r, where ev = ev and st = st] assms by simp
qed

lemma performErAction_rollupOnly: "stable (emits rollupOnly) (performErAction ev m n c)"
  unfolding performErAction_def transaction_def signWith_def Let_def
  apply (simp split: option.split)
  apply (intro conjI impI allI grows_rules; simp)
  done

lemma run_rollupOnly:
  assumes "onRollup op"
  shows "stable (emits rollupOnly) (run ev op c)"
  using assms
  by (cases op)
     (auto simp: er_wrapper_defs split: option.splits
           intro!: grows_rules performErAction_rollupOnly)

text \<open>
  C6. A rollup action that returns a hash has, in this order: built the transaction, read
  the latest blockhash from the rollup and put it into the transaction, had it signed,
  sent it to the rollup with \<^verbatim>\<open>skipPreflight: true\<close>, waited for the confirmation on the
  rollup, and then fetched the counter from the rollup; the fetch replaces the cached
  rollup value when it succeeds and is ignored when it fails. It does return the hash when
  it enters its routine and every call up to the confirmation succeeds. And whatever the
  outside answers, a rollup action never reads a blockhash of the base layer, never
  submits through the base-layer client, and sends raw transactions only to the rollup
  with \<^verbatim>\<open>skipPreflight: true\<close>.
\<close>

theorem rollup_action_steps:
  assumes "onRollup op"
  shows "(fst (run ev op c st) = Inr h \<longrightarrow>
           (\<exists>pk bh tx sg.
              counterPubkey c = Some pk \<and> blockhash_outcome ev = Inr bh
              \<and> tx_method tx = instructionOf op \<and> recentBlockhash tx = Some bh
              \<and> signedBy tx = [sg]
              \<and> trace (snd (run ev op c st)) = trace st @
                  [SetIsLoading True, SetError None,
                   BuildTransaction (instructionOf op) (tx_accounts tx),
                   GetLatestBlockhash RollupLedger,
                   SignTransaction sg (tx\<lparr>signedBy := []\<rparr>),
                   SendRawTransaction RollupLedger tx True,
                   ConfirmTransaction RollupLedger h,
                   FetchCounter RollupLedger pk] @
                  (case fetch_outcome ev RollupLedger of
                     Inl e \<Rightarrow> []
                   | Inr account \<Rightarrow> [SetErCounterValue (Some (count account))])
                  @ [SetIsLoading False]
              \<and> erCounterValue (snd (run ev op c st)) =
                  (case fetch_outcome ev RollupLedger of
                     Inl e \<Rightarrow> erCounterValue st
                   | Inr account \<Rightarrow> Some (count account))))
       \<and> (ready op c \<and> transaction_outcome ev = Inr () \<and> (\<exists>bh. blockhash_outcome ev = Inr bh)
            \<and> (\<forall>s. sign_outcome ev s = Inr ()) \<and> send_outcome ev = Inr h
            \<and> confirm_outcome ev = Inr () \<longrightarrow>
          fst (run ev op c st) = Inr h)
       \<and> (\<exists>new. trace (snd (run ev op c st)) = trace st @ new \<and> list_all rollupOnly new)"
proof (intro conjI impI)
  assume ret: "fst (run ev op c st) = Inr h"
  have rdy: "ready op c" and "awaited ev op c = Inr h"
    using returns_ready[OF ret] by simp_all
  then have sub: "submission ev (chosenSigner c) = Inr h"
    using assms by (cases op) simp_all
  obtain p erp wpk pk where r: "program c = Some p" "erProvider c = Some erp"
      "publicKey (wallet c) = Some wpk" "counterPubkey c = Some pk"
    using assms rdy by (cases op) auto
  obtain n where n: "run ev op c = performErAction ev (instructionOf op) n c"
    using run_onRollup[OF assms rdy, where ev = ev] by auto
  obtain bh where bh: "blockhash_outcome ev = Inr bh"
    using submission_Inr(2)[OF sub] by auto
  obtain tx sg where
    "tx_method tx = instructionOf op" "recentBlockhash tx = Some bh" "signedBy tx = [sg]"
    "trace (snd (performErAction ev (instructionOf op) n c st)) = trace st @
      [SetIsLoading True, SetError None,
       BuildTransaction (instructionOf op) (tx_accounts tx), GetLatestBlockhash RollupLedger,
       SignTransaction sg (tx\<lparr>signedBy := []\<rparr>),
       SendRawTransaction RollupLedger tx True,
       ConfirmTransaction RollupLedger h,
       FetchCounter RollupLedger pk] @
       (case fetch_outcome ev RollupLedger of
          Inl e \<Rightarrow> []
        | Inr account \<Rightarrow> [SetErCounterValue (Some (count account))])
       @ [SetIsLoading False]"
    "erCounterValue (snd (performErAction ev (instructionOf op) n c st)) =
       (case fetch_outcome ev RollupLedger of
          Inl e \<Rightarrow> erCounterValue st
        | Inr account \<Rightarrow> Some (count account))"
    using performErAction_success
            [OF r submission_Inr(1)[OF sub] bh submission_Inr(3,4,5)[OF sub],
             of "instructionOf op" n st]
    by blast
  then show "\<exists>pk bh tx sg.
              counterPubkey c = Some pk \<and> blockhash_outcome ev = Inr bh
              \<and> tx_method tx = instructionOf op \<and> recentBlockhash tx = Some bh
              \<and> signedBy tx = [sg]
              \<and> trace (snd (run ev op c st)) = trace st @
                  [SetIsLoading True, SetError None,
                   BuildTransaction (instructionOf op) (tx_accounts tx),
                   GetLatestBlockhash RollupLedger,
                   SignTransaction sg (tx\<lparr>signedBy := []\<rparr>),
                   SendRawTransaction RollupLedger tx True,
                   ConfirmTransaction RollupLedger h,
                   FetchCounter RollupLedger pk] @
                  (case fetch_outcome ev RollupLedger of
                     Inl e \<Rightarrow> []
                   | Inr account \<Rightarrow> [SetErCounterValue (Some (count account))])
                  @ [SetIsLoading False]
              \<and> erCounterValue (snd (run ev op c st)) =
                  (case fetch_outcome ev RollupLedger of
                     Inl e \<Rightarrow> erCounterValue st
                   | Inr account \<Rightarrow> Some (count account))"
    unfolding n using r(4) bh by blast
next
  assume a: "ready op c \<and> transaction_outcome ev = Inr () \<and> (\<exists>bh. blockhash_outcome ev = Inr bh)
            \<and> (\<forall>s. sign_outcome ev s = Inr ()) \<and> send_outcome ev = Inr h
            \<and> confirm_outcome ev = Inr ()"
  then have "awaited ev op c = Inr h"
    using assms by (cases op) (auto simp: submission_def andThen_def)
  then show "fst (run ev op c st) = Inr h"
    using ready_result[of op c ev st] a by simp
next
  show "\<exists>new. trace (snd (run ev op c st)) = trace st @ new \<and> list_all rollupOnly new"
    using stableD[OF run_rollupOnly[OF assms, where ev = ev and c = c], where st = st]
    by (simp add: emits_def)
qed

theorem rollup_action_steps_witness:
  "onRollup (SetOnER 5) \<and> ready (SetOnER 5) session_hook
   \<and> fst (run fetch_fails_env (SetOnER 5) session_hook session_hook) = Inr ''txHash''
   \<and> erCounterValue (snd (run fetch_fails_env (SetOnER 5) session_hook session_hook)) = Some 7"
  using rollup_action_steps
          [where op = "SetOnER 5" and c = session_hook and st = session_hook
             and ev = fetch_fails_env and h = "''txHash''"]
  by (auto simp: example_defs)

subsection \<open>Undelegation\<close>

text \<open>
  C7, as the claim states it, fails: a successful \<^verbatim>\<open>undelegate\<close> makes no call of the
  delegation-status check (which would read the account info of the base layer); its
  calls to the outside end with the settle interval and the fetch of the base-layer
  account.
\<close>

theorem undelegate_without_recheck_counterexample:
  "fst (undelegate example_env session_hook session_hook) = Inr ''txHash''
   \<and> calls (trace (snd (undelegate example_env session_hook session_hook))) =
       [BuildTransaction UndelegateIx (PayerAccounts ''alice''),
        GetLatestBlockhash RollupLedger,
        SignTransaction PrimaryWallet
          \<lparr>tx_method = UndelegateIx, tx_accounts = PayerAccounts ''alice'',
           feePayer = Some ''alice'', recentBlockhash = Some ''blockhash'', signedBy = []\<rparr>,
        SendRawTransaction RollupLedger
          \<lparr>tx_method = UndelegateIx, tx_accounts = PayerAccounts ''alice'',
           feePayer = Some ''alice'', recentBlockhash = Some ''blockhash'',
           signedBy = [PrimaryWallet]\<rparr> True,
        ConfirmTransaction RollupLedger ''txHash'',
        Timeout 2000,
        FetchCounter BaseLedger ''pda'']
   \<and> calls (trace (snd (checkDelegationStatus example_env session_hook session_hook))) =
       [GetAccountInfo BaseLedger ''pda'', FetchCounter RollupLedger ''pda'']"
  by (simp add: example_defs undelegate_def checkDelegationStatus_def fetchCounterAccount_def
        guarded_eq transaction_def signWith_def Let_def prog_defs DELEGATION_PROGRAM_ID_def)

text \<open>
  C7, amended. A successful \<^verbatim>\<open>undelegate\<close> performs, in this order: build the undelegate
  transaction, read the rollup's blockhash, sign with the primary wallet, send to the
  rollup, wait for the confirmation; wait the settle interval of 2000 ms; set the status to
  \<open>Undelegated\<close> and clear the cached rollup value; fetch the base-layer account. After
  that fetch only state setters follow: no delegation-status check is made or scheduled.
\<close>

theorem undelegate_steps:
  assumes "program c \<noteq> None" and "erProvider c \<noteq> None"
    and "publicKey (wallet c) = Some wpk" and "counterPubkey c = Some pk"
    and "transaction_outcome ev = Inr ()" and "blockhash_outcome ev = Inr bh"
    and "sign_outcome ev PrimaryWallet = Inr ()" and "send_outcome ev = Inr h"
    and "confirm_outcome ev = Inr ()"
  shows "\<exists>refresh.
           fst (undelegate ev c st) = Inr h
         \<and> delegationStatus (snd (undelegate ev c st)) = Undelegated
         \<and> erCounterValue (snd (undelegate ev c st)) = None
         \<and> list_all isSetter refresh
         \<and> trace (snd (undelegate ev c st)) =
             trace st @
             [SetIsLoading True, SetError None,
              BuildTransaction UndelegateIx (PayerAccounts wpk),
              GetLatestBlockhash RollupLedger,
              SignTransaction PrimaryWallet
                \<lparr>tx_method = UndelegateIx, tx_accounts = PayerAccounts wpk,
                 feePayer = Some wpk, recentBlockhash = Some bh, signedBy = []\<rparr>,
              SendRawTransaction RollupLedger
                \<lparr>tx_method = UndelegateIx, tx_accounts = PayerAccounts wpk,
                 feePayer = Some wpk, recentBlockhash = Some bh, signedBy = [PrimaryWallet]\<rparr>
                True,
              ConfirmTransaction RollupLedger h,
              Timeout 2000,
              SetDelegationStatus Undelegated, SetErCounterValue None,
              FetchCounter BaseLedger pk] @ refresh @ [SetIsLoading False]"
proof -
  obtain p erp where r: "program c = Some p" "erProvider c = Some erp"
    using assms(1,2) by auto
  show ?thesis
  proof (cases "fetch_outcome ev BaseLedger")
    case (Inr account)
    show ?thesis
      apply (rule exI[of _ "[SetCounterAccount (Some account), SetError None]"])
      using r assms(3-9) Inr
      apply (simp add: undelegate_def fetchCounterAccount_def guarded_eq transaction_def
                       signWith_def Let_def prog_defs)
      done
  next
    case (Inl e)
    show ?thesis
      apply (rule exI[of _ "SetCounterAccount None #
               (case e of
                  JsError msg \<Rightarrow>
                    if \<not> includes_str msg ''Account does not exist''
                       \<and> \<not> includes_str msg ''could not find account''
                    then [SetError (Some msg)] else []
                | NonError \<Rightarrow> [])"])
      using r assms(3-9) Inl
      apply (cases e)
       apply (simp_all add: undelegate_def fetchCounterAccount_def guarded_eq transaction_def
                       signWith_def Let_def prog_defs)
      done
  qed
qed

theorem undelegate_steps_witness:
  "program session_hook \<noteq> None \<and> erProvider session_hook \<noteq> None
   \<and> publicKey (wallet session_hook) = Some ''alice''
   \<and> counterPubkey session_hook = Some ''pda''
   \<and> fst (undelegate example_env session_hook session_hook) = Inr ''txHash''
   \<and> delegationStatus (snd (undelegate example_env session_hook session_hook)) = Undelegated
   \<and> erCounterValue (snd (undelegate example_env session_hook session_hook)) = None"
  using undelegate_steps
          [where c = session_hook and st = session_hook and ev = example_env
             and wpk = "''alice''" and pk = "''pda''" and bh = "''blockhash''"
             and h = "''txHash''"]
  by (auto simp: example_defs)

subsection \<open>Base-layer operations\<close>




subsection \<open>Busy flag and error slot\<close>

lemma fetchCounterAccount_grows: "stable (emits (\<lambda>e. True)) (fetchCounterAccount ev c)"
  unfolding fetchCounterAccount_def
  apply (simp split: option.split)
  apply (intro conjI impI allI grows_rules; simp)
  done

lemma fetchCounterAccount_error: "stable (error_of_refresh ev) (fetchCounterAccount ev c)"
  by (auto simp: stable_def error_of_refresh_def fetchCounterAccount_def prog_defs
           split: option.splits sum.splits js_exn.splits)

lemma checkDelegationStatus_grows: "stable (emits (\<lambda>e. True)) (checkDelegationStatus ev c)"
  unfolding checkDelegationStatus_def
  apply (simp split: option.split)
  apply (intro conjI impI allI grows_rules; simp)
  done

lemma checkDelegationStatus_keeps_error: "stable keeps_error (checkDelegationStatus ev c)"
  unfolding checkDelegationStatus_def
  apply (simp split: option.split)
  apply (intro conjI impI allI keeps_error_rules)
  done

lemma guarded_disciplined:
  assumes fb: "fb = fallback op"
    and en: "entry op = [SetIsLoading True, SetError None]"
    and ex: "exit op = [SetIsLoading False]"
    and grows: "stable (emits (\<lambda>e. True)) body"
    and err: "stable (if refreshes op then error_of_refresh ev else keeps_error) body"
  shows "disciplined ev op st
           (seq (setIsLoading True) (seq (setError None)
              (try_finally
                 (try_catch body (\<lambda>err. seq (setError (Some (message err fb))) (throw err)))
                 (setIsLoading False))) st)"
proof -
  let ?st0 = "st\<lparr>isLoading := True, error := None,
                   trace := trace st @ [SetIsLoading True, SetError None]\<rparr>"
  obtain rb sb where b: "body ?st0 = (rb, sb)" by (cases "body ?st0")
  obtain mid where mid: "trace sb = trace ?st0 @ mid"
    using stableD[OF grows, of ?st0] b by (auto simp: emits_def)
  have e: "error sb = None
           \<or> (refreshes op \<and> (\<exists>msg. fetch_outcome ev BaseLedger = Inl (JsError msg)
                                    \<and> error sb = Some msg))"
    using stableD[OF err, of ?st0] b
    by (cases "refreshes op") (auto simp: error_of_refresh_def keeps_error_def)
  show ?thesis
  proof (cases rb)
    case (Inl x)
    then show ?thesis
      unfolding guarded_eq disciplined_def using b mid fb en ex by simp
  next
    case (Inr x)
    then show ?thesis
      unfolding guarded_eq disciplined_def using b mid e fb en ex by simp
  qed
qed

lemma delegating_disciplined:
  assumes grows: "stable (emits (\<lambda>e. True)) body"
    and err: "stable keeps_error body"
  shows "disciplined ev DelegateOp st
           (seq (setIsLoading True) (seq (setIsDelegating True) (seq (setError None)
              (try_finally
                 (try_catch body
                    (\<lambda>err. seq (setError (Some (message err ''Failed to delegate counter'')))
                       (throw err)))
                 (seq (setIsLoading False) (setIsDelegating False))))) st)"
proof -
  let ?st0 = "st\<lparr>isLoading := True, isDelegating := True, error := None,
                   trace := trace st @ [SetIsLoading True, SetIsDelegating True, SetError None]\<rparr>"
  obtain rb sb where b: "body ?st0 = (rb, sb)" by (cases "body ?st0")
  obtain mid where mid: "trace sb = trace ?st0 @ mid"
    using stableD[OF grows, of ?st0] b by (auto simp: emits_def)
  have e: "error sb = None"
    using stableD[OF err, of ?st0] b by (simp add: keeps_error_def)
  show ?thesis
  proof (cases rb)
    case (Inl x)
    then show ?thesis
      unfolding delegating_eq disciplined_def using b mid by simp
  next
    case (Inr x)
    then show ?thesis
      unfolding delegating_eq disciplined_def using b mid e by simp
  qed
qed

lemma onRollup_shape:
  assumes "onRollup op"
  shows "\<not> refreshes op" and "entry op = [SetIsLoading True, SetError None]"
    and "exit op = [SetIsLoading False]"
  using assms by (cases op; simp)+

lemma performErAction_disciplined:
  assumes "program c = Some p" "erProvider c = Some erp" "publicKey (wallet c) = Some wpk"
    "counterPubkey c = Some pk" and fb: "''Failed to '' @ n @ '' on ER'' = fallback op"
    and op: "onRollup op"
  shows "disciplined ev op st (performErAction ev m n c st)"
  using assms(1-4)
  apply (simp add: performErAction_def)
  apply (rule guarded_disciplined)
  subgoal using fb by simp
  subgoal using op by (rule onRollup_shape)
  subgoal using op by (rule onRollup_shape)
  subgoal
    apply (unfold Let_def transaction_def signWith_def)
    apply (intro conjI impI allI grows_rules; simp)
    done
  subgoal
    apply (simp only: onRollup_shape(1)[OF op] if_False)
    apply (unfold Let_def transaction_def signWith_def)
    apply (intro conjI impI allI keeps_error_rules)
    done
  done

lemma ready_disciplined:
  assumes "ready op c"
  shows "disciplined ev op st (run ev op c st)"
proof (cases "onRollup op")
  case True
  then obtain p erp wpk pk where r: "program c = Some p" "erProvider c = Some erp"
      "publicKey (wallet c) = Some wpk" "counterPubkey c = Some pk"
    using assms by (cases op) auto
  obtain n where n: "run ev op c = performErAction ev (instructionOf op) n c"
      "''Failed to '' @ n @ '' on ER'' = fallback op"
    using run_onRollup[OF True assms, where ev = ev] by auto
  show ?thesis unfolding n(1) by (rule performErAction_disciplined[OF r n(2) True])
next
  case False
  show ?thesis
  proof (cases op)
    case Initialize
    then show ?thesis using assms
      apply (clarsimp simp: initialize_def)
      apply (rule guarded_disciplined; simp?)
       apply (intro grows_rules fetchCounterAccount_grows; simp)
      apply (intro error_of_refresh_rules fetchCounterAccount_error)
      done
  next
    case Increment
    then show ?thesis using assms
      apply (clarsimp simp: increment_def)
      apply (rule guarded_disciplined; simp?)
       apply (intro grows_rules; simp)
      apply (intro keeps_error_rules)
      done
  next
    case Decrement
    then show ?thesis using assms
      apply (clarsimp simp: decrement_def)
      apply (rule guarded_disciplined; simp?)
       apply (intro grows_rules; simp)
      apply (intro keeps_error_rules)
      done
  next
    case (SetTo v)
    then show ?thesis using assms
      apply (clarsimp simp: set'_def)
      apply (rule guarded_disciplined; simp?)
       apply (intro grows_rules; simp)
      apply (intro keeps_error_rules)
      done
  next
    case DelegateOp
    then show ?thesis using assms
      apply (clarsimp simp: delegate_def)
      apply (rule delegating_disciplined)
       apply (intro grows_rules checkDelegationStatus_grows; simp)
      apply (intro keeps_error_rules checkDelegationStatus_keeps_error)
      done
  next
    case CommitOp
    then show ?thesis using assms
      apply (clarsimp simp: commit_def)
      apply (rule guarded_disciplined; simp?)
       apply (unfold Let_def transaction_def signWith_def)
       apply (intro grows_rules fetchCounterAccount_grows; simp)
      apply (intro error_of_refresh_rules fetchCounterAccount_error)
      done
  next
    case UndelegateOp
    then show ?thesis using assms
      apply (clarsimp simp: undelegate_def)
      apply (rule guarded_disciplined; simp?)
       apply (unfold Let_def transaction_def signWith_def)
       apply (intro grows_rules fetchCounterAccount_grows; simp)
      apply (intro error_of_refresh_rules fetchCounterAccount_error)
      done
  qed (use False in simp_all)
qed

text \<open>
  C9, as the claim states it, fails twice: \<^verbatim>\<open>initialize\<close> with no wallet connected throws
  and leaves the error slot empty (and the busy flag untouched); and a successful
  \<^verbatim>\<open>initialize\<close> whose closing fetch of the account fails leaves that failure's message
  in the error slot.
\<close>

theorem mutating_operation_discipline_counterexample:
  "fst (initialize example_env disconnected_hook disconnected_hook)
     = Inl (JsError ''Wallet not connected'')
   \<and> error (snd (initialize example_env disconnected_hook disconnected_hook)) = None
   \<and> trace (snd (initialize example_env disconnected_hook disconnected_hook)) = []
   \<and> fst (initialize fetch_fails_env example_hook example_hook) = Inr ''sig''
   \<and> error (snd (initialize fetch_fails_env example_hook example_hook))
       = Some ''Failed to fetch''"
  by (simp add: example_defs initialize_def fetchCounterAccount_def guarded_eq prog_defs)

text \<open>
  C9, amended. For every mutating operation that enters its \<^verbatim>\<open>try\<close> block (its guard
  passes and, for \<^verbatim>\<open>setOnER\<close>, \<^verbatim>\<open>new BN(value)\<close> accepts the value): the busy flag is set
  and the error slot cleared before anything else, and the busy flag is cleared last, on
  every exit; the operation throws exactly when one of the steps it awaits outside an
  inner \<^verbatim>\<open>try/catch\<close> throws, it throws the value of the first such step, and the message of
  that value (or the operation's fallback text) is then in the error slot; when it returns,
  the error slot is clear, or, only for the operations that close with a refresh of the
  account (initialize, commit, undelegate), holds the message of that refresh's failed
  base-layer fetch. An operation that does not enter its \<^verbatim>\<open>try\<close> block throws and writes
  nothing.
\<close>

theorem mutating_operation_discipline:
  "(ready op c \<longrightarrow>
      (case run ev op c st of (r, st') \<Rightarrow>
         r = awaited ev op c
         \<and> isLoading st' = False
         \<and> (\<exists>mid. trace st' = trace st @ entry op @ mid @ exit op)
         \<and> (\<forall>e. r = Inl e \<longrightarrow> error st' = Some (message e (fallback op)))
         \<and> (\<forall>x. r = Inr x \<longrightarrow>
               error st' = None
               \<or> (refreshes op
                   \<and> (\<exists>msg. fetch_outcome ev BaseLedger = Inl (JsError msg)
                            \<and> error st' = Some msg)))))
   \<and> (\<not> ready op c \<longrightarrow> (\<exists>msg. run ev op c st = (Inl (JsError msg), st)))"
proof (intro conjI impI)
  assume r: "ready op c"
  have "fst (run ev op c st) = awaited ev op c"
    by (rule ready_result[OF r])
  moreover have "disciplined ev op st (run ev op c st)"
    by (rule ready_disciplined[OF r])
  ultimately show "case run ev op c st of (r, st') \<Rightarrow>
         r = awaited ev op c
         \<and> isLoading st' = False
         \<and> (\<exists>mid. trace st' = trace st @ entry op @ mid @ exit op)
         \<and> (\<forall>e. r = Inl e \<longrightarrow> error st' = Some (message e (fallback op)))
         \<and> (\<forall>x. r = Inr x \<longrightarrow>
               error st' = None
               \<or> (refreshes op
                   \<and> (\<exists>msg. fetch_outcome ev BaseLedger = Inl (JsError msg)
                            \<and> error st' = Some msg)))"
    by (simp add: disciplined_def split: prod.splits)
next
  assume "\<not> ready op c"
  then show "\<exists>msg. run ev op c st = (Inl (JsError msg), st)"
    by (rule run_not_ready)
qed

theorem mutating_operation_discipline_witness:
  "ready Decrement example_hook \<and> \<not> ready Decrement disconnected_hook
   \<and> \<not> ready (SetOnER (2 ^ 53)) example_hook
   \<and> fst (run rpc_fails_env Decrement example_hook (example_hook\<lparr>isLoading := True\<rparr>))
       = Inl NonError
   \<and> isLoading (snd (run rpc_fails_env Decrement example_hook
                        (example_hook\<lparr>isLoading := True\<rparr>))) = False
   \<and> error (snd (run rpc_fails_env Decrement example_hook
                        (example_hook\<lparr>isLoading := True\<rparr>)))
       = Some ''Failed to decrement counter''
   \<and> (\<exists>msg. run rpc_fails_env Decrement disconnected_hook disconnected_hook
              = (Inl (JsError msg), disconnected_hook))
   \<and> (\<exists>msg. run rpc_fails_env (SetOnER (2 ^ 53)) example_hook example_hook
              = (Inl (JsError msg), example_hook))"
  using mutating_operation_discipline
          [where op = Decrement and c = example_hook and ev = rpc_fails_env
             and st = "example_hook\<lparr>isLoading := True\<rparr>"]
        mutating_operation_discipline
          [where op = Decrement and c = disconnected_hook and ev = rpc_fails_env
             and st = disconnected_hook]
        mutating_operation_discipline
          [where op = "SetOnER (2 ^ 53)" and c = example_hook and ev = rpc_fails_env
             and st = example_hook]
  by (simp add: example_defs message_def split: prod.splits)

subsection \<open>Who signs on the base layer\<close>

lemma fetchCounterAccount_notSessionSigned:
  "stable (emits notSessionSigned) (fetchCounterAccount ev c)"
  unfolding fetchCounterAccount_def
  apply (simp split: option.split)
  apply (intro conjI impI allI grows_rules; simp)
  done

lemma checkDelegationStatus_notSessionSigned:
  "stable (emits notSessionSigned) (checkDelegationStatus ev c)"
  unfolding checkDelegationStatus_def
  apply (simp split: option.split)
  apply (intro conjI impI allI grows_rules; simp)
  done

lemma run_notSessionSigned:
  assumes "\<not> onRollup op"
  shows "stable (emits notSessionSigned) (run ev op c)"
proof (cases op)
  case Initialize
  show ?thesis unfolding Initialize run.simps initialize_def
    apply (simp split: option.split)
    apply (intro conjI impI allI grows_rules fetchCounterAccount_notSessionSigned; simp)
    done
next
  case Increment
  show ?thesis unfolding Increment run.simps increment_def
    apply (simp split: option.split)
    apply (intro conjI impI allI grows_rules; simp)
    done
next
  case Decrement
  show ?thesis unfolding Decrement run.simps decrement_def
    apply (simp split: option.split)
    apply (intro conjI impI allI grows_rules; simp)
    done
next
  case (SetTo v)
  show ?thesis unfolding SetTo run.simps set'_def
    apply (simp split: option.split)
    apply (intro conjI impI allI grows_rules; simp)
    done
next
  case DelegateOp
  show ?thesis unfolding DelegateOp run.simps delegate_def
    apply (simp split: option.split)
    apply (intro conjI impI allI grows_rules checkDelegationStatus_notSessionSigned; simp)
    done
next
  case CommitOp
  show ?thesis unfolding CommitOp run.simps commit_def Let_def transaction_def signWith_def
    apply (simp split: option.split)
    apply (intro conjI impI allI grows_rules fetchCounterAccount_notSessionSigned; simp)
    done
next
  case UndelegateOp
  show ?thesis unfolding UndelegateOp run.simps undelegate_def Let_def transaction_def signWith_def
    apply (simp split: option.split)
    apply (intro conjI impI allI grows_rules fetchCounterAccount_notSessionSigned; simp)
    done
qed (use assms in simp_all)

text \<open>
  C10. Base-layer \<^verbatim>\<open>increment\<close>, \<^verbatim>\<open>decrement\<close> and \<^verbatim>\<open>set\<close> past their guard,
  whatever session the session manager reports and whatever the outside answers, make no
  call to the outside but one: \<^verbatim>\<open>rpc()\<close> through the base-layer client of the primary
  wallet, with the primary wallet as signer account and a null session token (\<^verbatim>\<open>set\<close>
  with a value that \<^verbatim>\<open>new BN\<close> rejects throws before that call and makes none). And no
  operation other than the rollup actions ever asks the session key to sign.
\<close>

theorem base_operations_sign_with_primary_wallet:
  assumes "op = Increment \<or> op = Decrement \<or> op = SetTo v"
    and "program c \<noteq> None" and "publicKey (wallet c) = Some wpk"
    and "counterPubkey c = Some pk"
  shows "calls (trace (snd (run ev op (c\<lparr>sessionWallet := sw\<rparr>) st))) =
           calls (trace st) @
           (if op = SetTo v \<and> \<not> \<bar>v\<bar> < 2 ^ 53 then []
            else [Rpc \<lparr>provider_connection = BaseLedger, provider_wallet = wpk\<rparr>
                    (instructionOf op) (CounterAccounts pk (Some wpk) None) False])
         \<and> (\<forall>op' ev' c' st'. \<not> onRollup op' \<longrightarrow>
              (\<exists>new. trace (snd (run ev' op' c' st')) = trace st' @ new
                     \<and> list_all notSessionSigned new))"
proof
  have p: "program (c\<lparr>sessionWallet := sw\<rparr>) =
             Some \<lparr>provider_connection = BaseLedger, provider_wallet = wpk\<rparr>"
    using assms(2,3) by (auto simp: program_def split: option.splits if_splits)
  show "calls (trace (snd (run ev op (c\<lparr>sessionWallet := sw\<rparr>) st))) =
           calls (trace st) @
           (if op = SetTo v \<and> \<not> \<bar>v\<bar> < 2 ^ 53 then []
            else [Rpc \<lparr>provider_connection = BaseLedger, provider_wallet = wpk\<rparr>
                    (instructionOf op) (CounterAccounts pk (Some wpk) None) False])"
    using assms(1,3,4) p
    by (cases "rpc_outcome ev")
       (auto simp: increment_def decrement_def set'_def guarded_eq prog_defs newBN_def)
next
  show "\<forall>op' ev' c' st'. \<not> onRollup op' \<longrightarrow>
              (\<exists>new. trace (snd (run ev' op' c' st')) = trace st' @ new
                     \<and> list_all notSessionSigned new)"
    using run_notSessionSigned stableD emits_def by metis
qed

theorem base_operations_sign_with_primary_wallet_witness:
  "program session_hook \<noteq> None \<and> publicKey (wallet session_hook) = Some ''alice''
   \<and> counterPubkey session_hook = Some ''pda''
   \<and> sessionToken (sessionWallet session_hook) = Some ''token''
   \<and> calls (trace (snd (run example_env Increment session_hook session_hook))) =
       [Rpc \<lparr>provider_connection = BaseLedger, provider_wallet = ''alice''\<rparr> IncrementIx
          (CounterAccounts ''pda'' (Some ''alice'') None) False]
   \<and> calls (trace (snd (run example_env (SetTo 41) session_hook session_hook))) =
       [Rpc \<lparr>provider_connection = BaseLedger, provider_wallet = ''alice''\<rparr> (SetIx 41)
          (CounterAccounts ''pda'' (Some ''alice'') None) False]"
  using base_operations_sign_with_primary_wallet
          [where op = Increment and c = session_hook and st = session_hook
             and ev = example_env and wpk = "''alice''" and pk = "''pda''"
             and sw = "sessionWallet session_hook"]
        base_operations_sign_with_primary_wallet
          [where op = "SetTo 41" and v = 41 and c = session_hook and st = session_hook
             and ev = example_env and wpk = "''alice''" and pk = "''pda''"
             and sw = "sessionWallet session_hook"]
  by (simp add: example_defs)

end
